theory Spec2Isabelle
  imports Complex_Main
begin

section \<open>Python values, exceptions and the log\<close>

text \<open>
  The three source files are \<^verbatim>\<open>project/database_and_model_tools.py\<close>,
  \<^verbatim>\<open>project/db.py\<close> and \<^verbatim>\<open>dags/db_pipeline_dag.py\<close>. Every function of the
  source that can raise returns a value of type \<open>exn + 'a\<close> here (\<open>Inl\<close> the exception),
  paired with the state it leaves behind. \<open>exn\<close> stands for the subclasses of Python's
  \<^verbatim>\<open>Exception\<close>; \<^verbatim>\<open>KeyboardInterrupt\<close> and \<^verbatim>\<open>SystemExit\<close>, which
  \<^verbatim>\<open>except Exception\<close> lets through, are outside the model.
\<close>

datatype exn =
    AttributeError | KeyError | TypeError | FileNotFoundError | ParserError
  | UnpicklingError | OSError | OperationalError | DatabaseError | ValueError
  | InterfaceError | ProgrammingError

datatype level = INFO | WARNING | ERROR

text \<open>A log record: the fixed part of the message, or the scaled row that the scaler test prints.\<close>

datatype message = Text string | Scaled "real list"

text \<open>
  \<^verbatim>\<open>str.lower()\<close> on ASCII text: the 26 capital letters are replaced, every other
  character is kept. Names with letters beyond ASCII are outside the model.
\<close>

definition ascii_uppercase :: string where
  "ascii_uppercase = ''ABCDEFGHIJKLMNOPQRSTUVWXYZ''"

definition ascii_lowercase :: string where
  "ascii_lowercase = ''abcdefghijklmnopqrstuvwxyz''"

definition lower_char :: "char \<Rightarrow> char" where
  "lower_char c =
     (case map_of (zip ascii_uppercase ascii_lowercase) c of Some d \<Rightarrow> d | None \<Rightarrow> c)"

definition lower :: "string \<Rightarrow> string" where
  "lower s = map lower_char s"

text \<open>\<^verbatim>\<open>d.get(k, dflt)\<close> on a dict written as an association list.\<close>

definition dict_get :: "('k \<times> 'v) list \<Rightarrow> 'k \<Rightarrow> 'v \<Rightarrow> 'v" where
  "dict_get d k dflt = (case map_of d k of Some v \<Rightarrow> v | None \<Rightarrow> dflt)"

section \<open>Data model\<close>

text \<open>
  A cell of the frame that \<^verbatim>\<open>pd.read_csv\<close> builds: a number, a string, or \<open>NaN\<close>, the
  marker of a missing value, which \<^verbatim>\<open>fillna\<close> replaces. Numbers are carried, never
  computed with, and are reals here.
\<close>

datatype cell = NaN | Num real | Str string

record dataframe =
  columns :: "string list"
  rows :: "cell list list"

text \<open>
  What \<^verbatim>\<open>row.get(c, None)\<close> gives: Python's None when the row has no label \<open>c\<close>, the
  cell (NaN included) when it has one, a pandas Series when it has several. For the driver,
  None is SQL NULL, NaN is the float NaN (never NULL), and a Series cannot be adapted.
\<close>

datatype pyarg = PyNone | PyScalar cell | PySeries

text \<open>
  One tuple of the multi-row INSERT: 17 arguments in the order of \<open>required_columns\<close>.
  The committed table is kept as the tuples the server accepted; what the server makes of
  a NaN in a column of a given type is its own matter.
\<close>

type_synonym tuple = "pyarg list"

text \<open>
  A deserialized model or scaler. \<open>feature_names_in = None\<close> means that
  \<^verbatim>\<open>hasattr(obj, 'feature_names_in_')\<close> is false. \<open>on_setattr\<close> is what assigning the
  attribute does: a read-only property raises \<^verbatim>\<open>AttributeError\<close>. \<open>transform\<close> maps
  the single input row to the single output row, or raises.
\<close>

datatype setattr_outcome = Accepts | Raises exn

record artifact =
  feature_names_in :: "string list option"
  on_setattr :: setattr_outcome
  transform :: "real list \<Rightarrow> exn + real list"

datatype stored = Csv dataframe | Pickle artifact | Other

text \<open>Values in a row returned by the database driver, and Python's truth value of them.\<close>

datatype pyval = PNone | PStr string | PInt int | PFloat real

fun truthy :: "pyval \<Rightarrow> bool" where
  "truthy PNone = False"
| "truthy (PStr s) = (s \<noteq> [])"
| "truthy (PInt i) = (i \<noteq> 0)"
| "truthy (PFloat r) = (r \<noteq> 0)"

text \<open>An element of a result list: a dict (\<^verbatim>\<open>RealDictRow\<close>) or anything else.\<close>

datatype pyobj = Dict "(string \<times> pyval) list" | NotADict

text \<open>What \<^verbatim>\<open>execute_query\<close> returns: \<^verbatim>\<open>cursor.fetchall()\<close> or \<^verbatim>\<open>cursor.rowcount\<close>.\<close>

datatype qresult = Rows "pyobj list" | RowCount int

text \<open>
  The SQL statements of the source, by shape: the table or index created, the table counted,
  the metric column of a latest-reading-per-machine query, the ILIKE pattern of the status
  query (\<open>None\<close>: the query without a status condition).
\<close>

datatype sql =
    CREATE_TABLE string
  | CREATE_INDEX string
  | SELECT_COUNT string
  | SELECT_LATEST string
  | SELECT_LATEST_VALID_HUMIDITY
  | SELECT_BY_STATUS "string option"
  | SELECT_COMPARISON

section \<open>State and environment\<close>

text \<open>
  The state that the program changes: the files, the module-level \<^verbatim>\<open>_db_instance\<close>
  (\<open>db_instance\<close> holds when it is not None), the committed telemetry rows, the rows
  inserted in the open transaction, counters of commits and rollbacks, the paths written by
  \<^verbatim>\<open>joblib.dump\<close> and the log.
\<close>

record state =
  disk :: "string \<rightharpoonup> stored"
  db_instance :: bool
  telemetry :: "tuple list"
  pending :: "tuple list"
  commits :: nat
  rollbacks :: nat
  writes :: "string list"
  logged :: "(level \<times> message) list"

text \<open>
  How \<^verbatim>\<open>joblib.dump\<close> ends on a path: the object is written; or opening the file for
  writing raises, and the file is as before; or writing raises after the file was opened,
  and a truncated file that no longer loads is left.
\<close>

datatype dump_outcome = Dumped | OpenFails exn | WriteFails exn

text \<open>
  What the outside world answers: the exception (if any) raised by
  \<^verbatim>\<open>psycopg2.connect\<close>, by \<^verbatim>\<open>conn.cursor()\<close>, by the server on one page of the
  multi-row INSERT, by \<^verbatim>\<open>conn.commit()\<close>, by \<^verbatim>\<open>conn.rollback()\<close> and by
  \<^verbatim>\<open>cursor.execute\<close> on a statement; how \<^verbatim>\<open>joblib.dump\<close> ends on a path; what
  \<^verbatim>\<open>cursor.fetchall()\<close> gives after a statement, and \<^verbatim>\<open>cursor.rowcount\<close>.
\<close>

record env =
  connect_exn :: "exn option"
  cursor_exn :: "exn option"
  page_exn :: "tuple list \<Rightarrow> exn option"
  commit_exn :: "exn option"
  rollback_exn :: "exn option"
  dump_outcome :: "string \<Rightarrow> dump_outcome"
  execute_exn :: "sql \<Rightarrow> exn option"
  fetchall :: "sql \<Rightarrow> exn + pyobj list"
  rowcount :: "sql \<Rightarrow> int"

definition logger :: "level \<Rightarrow> string \<Rightarrow> state \<Rightarrow> state" where
  "logger lvl txt st = st\<lparr>logged := logged st @ [(lvl, Text txt)]\<rparr>"

definition commit :: "state \<Rightarrow> state" where
  "commit st = st\<lparr>telemetry := telemetry st @ pending st, pending := [],
                  commits := Suc (commits st)\<rparr>"

text \<open>
  \<^verbatim>\<open>conn.rollback()\<close> can raise (on a connection that was dropped, for one); the model
  then leaves the state as it was: what becomes of the open transaction is the server's
  matter, and nothing is committed.
\<close>

definition rollback :: "env \<Rightarrow> state \<Rightarrow> (exn + unit) \<times> state" where
  "rollback ev st =
     (case rollback_exn ev of
        Some e \<Rightarrow> (Inl e, st)
      | None \<Rightarrow> (Inr (), st\<lparr>pending := [], rollbacks := Suc (rollbacks st)\<rparr>))"

text \<open>
  The two statements \<^verbatim>\<open>self.conn.rollback()\<close> and \<^verbatim>\<open>raise\<close> that end the
  \<^verbatim>\<open>except\<close> clauses of \<^verbatim>\<open>_insert_rows\<close> and \<^verbatim>\<open>execute_query\<close>: the exception
  \<open>e\<close> being handled is raised again unless the rollback raises, and then the rollback's
  exception is the one that leaves the function.
\<close>

definition rollback_and_raise :: "env \<Rightarrow> exn \<Rightarrow> state \<Rightarrow> (exn + 'a) \<times> state" where
  "rollback_and_raise ev e st =
     (case rollback ev st of
        (Inl e', st1) \<Rightarrow> (Inl e', st1)
      | (Inr u, st1) \<Rightarrow> (Inl e, st1))"

definition path_exists :: "state \<Rightarrow> string \<Rightarrow> bool" where
  "path_exists st p = (disk st p \<noteq> None)"

definition joblib_load :: "state \<Rightarrow> string \<Rightarrow> exn + artifact" where
  "joblib_load st p =
     (case disk st p of
        None \<Rightarrow> Inl FileNotFoundError
      | Some (Pickle a) \<Rightarrow> Inr a
      | Some _ \<Rightarrow> Inl UnpicklingError)"

text \<open>\<^verbatim>\<open>joblib.dump(obj, path)\<close>.\<close>

definition joblib_dump :: "env \<Rightarrow> artifact \<Rightarrow> string \<Rightarrow> state \<Rightarrow> (exn + unit) \<times> state" where
  "joblib_dump ev a p st =
     (case dump_outcome ev p of
        OpenFails e \<Rightarrow> (Inl e, st)
      | WriteFails e \<Rightarrow> (Inl e, st\<lparr>disk := (disk st)(p \<mapsto> Other)\<rparr>)
      | Dumped \<Rightarrow> (Inr (), st\<lparr>disk := (disk st)(p \<mapsto> Pickle a), writes := writes st @ [p]\<rparr>))"

section \<open>FeatureNamesFixer\<close>

definition feature_mapping :: "(string \<times> string) list" where
  "feature_mapping =
    [(''FuelConsumption'', ''fuelconsumption''), (''VibrationLevel'', ''vibrationlevel''),
     (''Humidity'', ''humidity''), (''Pressure'', ''pressure''),
     (''PowerOutput'', ''poweroutput''), (''OperatingHours'', ''operatinghours''),
     (''Timestamp_epoch'', ''timestamp_epoch''), (''Hour'', ''hour''),
     (''DayOfWeek'', ''dayofweek''), (''Month'', ''month'')]"

text \<open>The list comprehension \<^verbatim>\<open>[self.feature_mapping.get(f, f.lower()) for f in original]\<close>.\<close>

definition new_features :: "string list \<Rightarrow> string list" where
  "new_features original = map (\<lambda>f. dict_get feature_mapping f (lower f)) original"

text \<open>
  \<^verbatim>\<open>fix_model_features\<close>. The inner \<^verbatim>\<open>try\<close> turns an \<^verbatim>\<open>AttributeError\<close> of the
  assignment into a warning and goes on to the dump; any other exception of the assignment
  or of the dump is caught by the middle \<^verbatim>\<open>try\<close>, logged as a warning, and the function
  still returns True.
\<close>

definition fix_model_features :: "env \<Rightarrow> string \<Rightarrow> state \<Rightarrow> bool \<times> state" where
  "fix_model_features ev model_path st =
     (if \<not> path_exists st model_path then (False, logger ERROR ''Model file not found'' st)
      else case joblib_load st model_path of
        Inl e \<Rightarrow> (False, logger ERROR ''Failed to fix model features'' st)
      | Inr model \<Rightarrow>
         (case feature_names_in model of
            None \<Rightarrow> (True, logger INFO ''Model has no feature_names_in_ attribute, skipped'' st)
          | Some original \<Rightarrow>
             (case (case on_setattr model of
                      Accepts \<Rightarrow>
                        Inr (model\<lparr>feature_names_in := Some (new_features original)\<rparr>,
                             logger INFO ''Updated feature names'' st)
                    | Raises AttributeError \<Rightarrow>
                        Inr (model, logger WARNING ''Cannot modify feature_names_in_ (read-only)'' st)
                    | Raises e \<Rightarrow> Inl e) of
                Inl e \<Rightarrow> (True, logger WARNING ''Could not fix features'' st)
              | Inr (model', st1) \<Rightarrow>
                 (case joblib_dump ev model' model_path st1 of
                    (Inl e, st2) \<Rightarrow> (True, logger WARNING ''Could not fix features'' st2)
                  | (Inr u, st2) \<Rightarrow> (True, logger INFO ''Saved model file'' st2)))))"

text \<open>
  \<^verbatim>\<open>fix_scaler_features\<close> has the outer \<^verbatim>\<open>try\<close> only: every exception of the
  assignment or of the dump is logged as an error and the function returns False.
\<close>

definition fix_scaler_features :: "env \<Rightarrow> string \<Rightarrow> state \<Rightarrow> bool \<times> state" where
  "fix_scaler_features ev scaler_path st =
     (if \<not> path_exists st scaler_path then (False, logger ERROR ''Scaler file not found'' st)
      else case joblib_load st scaler_path of
        Inl e \<Rightarrow> (False, logger ERROR ''Failed to fix scaler features'' st)
      | Inr scaler \<Rightarrow>
         (case feature_names_in scaler of
            None \<Rightarrow> (True, st)
          | Some original \<Rightarrow>
             (case on_setattr scaler of
                Raises e \<Rightarrow> (False, logger ERROR ''Failed to fix scaler features'' st)
              | Accepts \<Rightarrow>
                 (case joblib_dump ev (scaler\<lparr>feature_names_in := Some (new_features original)\<rparr>)
                         scaler_path st of
                    (Inl e, st1) \<Rightarrow> (False, logger ERROR ''Failed to fix scaler features'' st1)
                  | (Inr u, st1) \<Rightarrow> (True, logger INFO ''Fixed scaler features'' st1)))))"

section \<open>DataIngestor\<close>

definition required_columns :: "string list" where
  "required_columns =
    [''machineid'', ''type'', ''location'', ''timestamp'', ''enginetemperature'',
     ''fuelconsumption'', ''vibrationlevel'', ''humidity'', ''pressure'',
     ''poweroutput'', ''operatinghours'', ''status'', ''status_encoded'',
     ''timestamp_epoch'', ''hour'', ''dayofweek'', ''month'']"

definition column_mapping :: "(string \<times> string) list" where
  "column_mapping =
    [(''MachineID'', ''machineid''), (''Type'', ''type''), (''Location'', ''location''),
     (''Timestamp'', ''timestamp''), (''EngineTemperature'', ''enginetemperature''),
     (''FuelConsumption'', ''fuelconsumption''), (''VibrationLevel'', ''vibrationlevel''),
     (''Humidity'', ''humidity''), (''Pressure'', ''pressure''),
     (''PowerOutput'', ''poweroutput''), (''OperatingHours'', ''operatinghours''),
     (''Status'', ''status''), (''Status_encoded'', ''status_encoded''),
     (''Timestamp_epoch'', ''timestamp_epoch''), (''hour'', ''hour''),
     (''dayofweek'', ''dayofweek''), (''month'', ''month'')]"

text \<open>The dict given to \<^verbatim>\<open>fillna\<close> in \<^verbatim>\<open>_clean_dataframe\<close>.\<close>

definition fill_values :: "(string \<times> cell) list" where
  "fill_values =
    [(''enginetemperature'', Num 75), (''fuelconsumption'', Num 10),
     (''vibrationlevel'', Num 3), (''humidity'', Num 65), (''pressure'', Num 950),
     (''poweroutput'', Num 200), (''operatinghours'', Num 0), (''status'', Str ''Unknown'')]"

definition read_csv :: "state \<Rightarrow> string \<Rightarrow> exn + dataframe" where
  "read_csv st file_path =
     (case disk st file_path of
        None \<Rightarrow> Inl FileNotFoundError
      | Some (Csv df) \<Rightarrow> Inr df
      | Some _ \<Rightarrow> Inl ParserError)"

text \<open>\<^verbatim>\<open>_convert_column_names\<close>: the rename by \<^verbatim>\<open>column_mapping.get(col, col.lower())\<close>.\<close>

definition convert_column_names :: "dataframe \<Rightarrow> dataframe" where
  "convert_column_names df =
     df\<lparr>columns := map (\<lambda>col. dict_get column_mapping col (lower col)) (columns df)\<rparr>"

text \<open>
  \<^verbatim>\<open>DataFrame.fillna(dict)\<close> on one cell of column \<open>c\<close>: a NaN cell takes the value the
  dict has for \<open>c\<close>, and stays NaN when the dict has none.
\<close>

definition fillna :: "(string \<times> cell) list \<Rightarrow> string \<Rightarrow> cell \<Rightarrow> cell" where
  "fillna values c v = (case v of NaN \<Rightarrow> dict_get values c NaN | Num x \<Rightarrow> Num x | Str x \<Rightarrow> Str x)"

text \<open>\<^verbatim>\<open>_clean_dataframe\<close>: fill, then lowercase the column names once more.\<close>

definition clean_dataframe :: "dataframe \<Rightarrow> dataframe" where
  "clean_dataframe df =
     \<lparr>columns = map lower (columns df),
      rows = map (\<lambda>row. map (\<lambda>(c, v). fillna fill_values c v) (zip (columns df) row)) (rows df)\<rparr>"

text \<open>
  \<^verbatim>\<open>row.get(c, None)\<close> on a row of a frame with the given column names: the default None
  when no column has the name, the cell when one has, a Series when several have.
\<close>

definition row_get :: "string list \<Rightarrow> cell list \<Rightarrow> string \<Rightarrow> pyarg" where
  "row_get cols row c =
     (case filter (\<lambda>(k, v). k = c) (zip cols row) of
        [] \<Rightarrow> PyNone
      | [(k, v)] \<Rightarrow> PyScalar v
      | _ \<Rightarrow> PySeries)"

text \<open>Whether psycopg2 can adapt every argument of a tuple: a Series it cannot.\<close>

definition adaptable :: "tuple \<Rightarrow> bool" where
  "adaptable t = (PySeries \<notin> set t)"

text \<open>
  \<^verbatim>\<open>execute_values(cursor, query, rows, page_size)\<close> of psycopg2 takes the tuples in pages
  of at most \<open>page_size\<close>. For each page, in order, it adapts every tuple
  (\<^verbatim>\<open>cursor.mogrify\<close>, which raises \<^verbatim>\<open>ProgrammingError\<close> on an argument it cannot
  adapt) and then sends one INSERT statement; it stops at the first page that fails.
\<close>

function paginate :: "nat \<Rightarrow> 'a list \<Rightarrow> 'a list list" where
  "paginate n xs = (if n = 0 \<or> xs = [] then [] else take n xs # paginate n (drop n xs))"
  by pat_completeness auto
termination
  by (relation "measure (\<lambda>(n, xs). length xs)") auto

declare paginate.simps [simp del]

fun execute_pages :: "env \<Rightarrow> tuple list list \<Rightarrow> state \<Rightarrow> (exn + unit) \<times> state" where
  "execute_pages ev [] st = (Inr (), st)"
| "execute_pages ev (page # pages) st =
     (if \<not> list_all adaptable page then (Inl ProgrammingError, st)
      else case page_exn ev page of
        Some e \<Rightarrow> (Inl e, st)
      | None \<Rightarrow> execute_pages ev pages (st\<lparr>pending := pending st @ page\<rparr>))"

definition execute_values :: "env \<Rightarrow> tuple list \<Rightarrow> nat \<Rightarrow> state \<Rightarrow> (exn + unit) \<times> state" where
  "execute_values ev tuples page_size st = execute_pages ev (paginate page_size tuples) st"

text \<open>The tuples that \<^verbatim>\<open>_insert_rows\<close> builds in its first loop.\<close>

definition build_rows :: "dataframe \<Rightarrow> tuple list" where
  "build_rows df = map (\<lambda>row. map (row_get (columns df) row) required_columns) (rows df)"

text \<open>
  The value that the INSERT statement, which lists \<open>required_columns\<close>, gives column \<open>c\<close>
  from a tuple.
\<close>

definition inserted_value :: "tuple \<Rightarrow> string \<Rightarrow> pyarg" where
  "inserted_value t c = dict_get (zip required_columns t) c PyNone"

text \<open>
  \<^verbatim>\<open>_insert_rows\<close>: the inner case is the body of the \<^verbatim>\<open>try\<close>, the outer one its
  \<^verbatim>\<open>except\<close> clause, which logs, rolls back and raises.
\<close>

definition insert_rows :: "env \<Rightarrow> dataframe \<Rightarrow> state \<Rightarrow> (exn + nat) \<times> state" where
  "insert_rows ev df st =
     (let tuples = build_rows df in
      case (case cursor_exn ev of
              Some e \<Rightarrow> (Inl e, st)
            | None \<Rightarrow>
               (case execute_values ev tuples 1000 st of
                  (Inl e, st1) \<Rightarrow> (Inl e, st1)
                | (Inr u, st1) \<Rightarrow>
                   (case commit_exn ev of
                      Some e \<Rightarrow> (Inl e, st1)
                    | None \<Rightarrow>
                       (Inr (length tuples), logger INFO ''Batch insert complete'' (commit st1))))) of
        (Inl e, st2) \<Rightarrow> rollback_and_raise ev e (logger ERROR ''Batch insert failed'' st2)
      | (Inr n, st2) \<Rightarrow> (Inr n, st2))"

definition ingest_csv :: "env \<Rightarrow> string \<Rightarrow> state \<Rightarrow> (exn + nat) \<times> state" where
  "ingest_csv ev file_path st =
     (let st0 = logger INFO ''Reading CSV file'' st in
      case read_csv st0 file_path of
        Inl e \<Rightarrow> (Inl e, logger ERROR ''Ingestion failed'' st0)
      | Inr df \<Rightarrow>
         (case insert_rows ev (clean_dataframe (convert_column_names df))
                 (logger INFO ''Loaded rows from CSV'' st0) of
            (Inl e, st1) \<Rightarrow> (Inl e, logger ERROR ''Ingestion failed'' st1)
          | (Inr count, st1) \<Rightarrow> (Inr count, logger INFO ''Successfully ingested rows'' st1)))"

section \<open>Database\<close>

text \<open>
  \<^verbatim>\<open>get_db()\<close>, with the constructor of \<^verbatim>\<open>Database\<close> and its \<^verbatim>\<open>connect\<close>: the first
  call connects, logs the failure of the connection and raises it again.
\<close>

definition get_db :: "env \<Rightarrow> state \<Rightarrow> (exn + unit) \<times> state" where
  "get_db ev st =
     (if db_instance st then (Inr (), st)
      else case connect_exn ev of
        Some e \<Rightarrow> (Inl e, logger ERROR ''Database connection failed'' st)
      | None \<Rightarrow> (Inr (), (logger INFO ''Connected to PostgreSQL database'' st)\<lparr>db_instance := True\<rparr>))"

text \<open>
  The test \<^verbatim>\<open>is_select_query\<close> of \<^verbatim>\<open>execute_query\<close>, evaluated on the statements of
  the source: the text of the CREATE statements starts with neither SELECT nor WITH and has
  no SELECT among its first three words.
\<close>

fun is_select_query :: "sql \<Rightarrow> bool" where
  "is_select_query (CREATE_TABLE t) = False"
| "is_select_query (CREATE_INDEX i) = False"
| "is_select_query q = True"

definition execute_query :: "env \<Rightarrow> sql \<Rightarrow> state \<Rightarrow> (exn + qresult) \<times> state" where
  "execute_query ev query st =
     (case (case cursor_exn ev of
              Some e \<Rightarrow> Inl e
            | None \<Rightarrow>
               (case execute_exn ev query of
                  Some e \<Rightarrow> Inl e
                | None \<Rightarrow>
                   if is_select_query query
                   then (case fetchall ev query of
                           Inl e \<Rightarrow> Inl e
                         | Inr rs \<Rightarrow> Inr (Rows rs, st))
                   else (case commit_exn ev of
                           Some e \<Rightarrow> Inl e
                         | None \<Rightarrow> Inr (RowCount (rowcount ev query), commit st)))) of
        Inl e \<Rightarrow> rollback_and_raise ev e (logger ERROR ''Query failed'' st)
      | Inr (res, st1) \<Rightarrow> (Inr res, st1))"

definition table_queries :: "sql list" where
  "table_queries =
     [CREATE_TABLE ''telemetry'', CREATE_TABLE ''user_query_log'', CREATE_TABLE ''predictions'']"

definition index_queries :: "sql list" where
  "index_queries =
     [CREATE_INDEX ''idx_telemetry_machine_id'', CREATE_INDEX ''idx_telemetry_timestamp_epoch'',
      CREATE_INDEX ''idx_telemetry_ts_epoch'', CREATE_INDEX ''idx_query_log_epoch'',
      CREATE_INDEX ''idx_predictions_epoch'', CREATE_INDEX ''idx_telemetry_composite'']"

text \<open>
  One loop of \<^verbatim>\<open>init_db\<close>: each statement in its own \<^verbatim>\<open>try\<close>, a failure logged as a
  warning, the loop going on.
\<close>

fun run_queries :: "env \<Rightarrow> string \<Rightarrow> string \<Rightarrow> sql list \<Rightarrow> state \<Rightarrow> state" where
  "run_queries ev ok bad [] st = st"
| "run_queries ev ok bad (query # queries) st =
     (case execute_query ev query st of
        (Inl e, st1) \<Rightarrow> run_queries ev ok bad queries (logger WARNING bad st1)
      | (Inr r, st1) \<Rightarrow> run_queries ev ok bad queries (logger INFO ok st1))"

definition init_db :: "env \<Rightarrow> state \<Rightarrow> state" where
  "init_db ev st =
     run_queries ev ''Created index'' ''Could not create index'' index_queries
       (run_queries ev ''Executed table creation query'' ''Could not execute query''
          table_queries st)"

section \<open>Query facade\<close>

text \<open>\<^verbatim>\<open>x[k]\<close> on an element of a result list.\<close>

fun subscript :: "pyobj \<Rightarrow> string \<Rightarrow> exn + pyval" where
  "subscript (Dict d) k = (case map_of d k of None \<Rightarrow> Inl KeyError | Some v \<Rightarrow> Inr v)"
| "subscript NotADict k = Inl TypeError"

text \<open>
  Sort keys. Python orders numbers among themselves and strings among themselves (by code
  point); any other comparison raises \<^verbatim>\<open>TypeError\<close>. \<open>KInf\<close> is \<^verbatim>\<open>float('inf')\<close>.
\<close>

datatype sortkey = KNum real | KInf | KStr string | KNone

fun key_of :: "pyval \<Rightarrow> sortkey" where
  "key_of PNone = KNone"
| "key_of (PStr s) = KStr s"
| "key_of (PInt i) = KNum (of_int i)"
| "key_of (PFloat r) = KNum r"

fun str_lt :: "string \<Rightarrow> string \<Rightarrow> bool" where
  "str_lt [] [] = False"
| "str_lt [] (d # ds) = True"
| "str_lt (c # cs) [] = False"
| "str_lt (c # cs) (d # ds) = ((of_char c :: nat) < of_char d \<or> (c = d \<and> str_lt cs ds))"

fun key_lt :: "sortkey \<Rightarrow> sortkey \<Rightarrow> bool" where
  "key_lt (KNum a) (KNum b) = (a < b)"
| "key_lt (KNum a) KInf = True"
| "key_lt (KStr a) (KStr b) = str_lt a b"
| "key_lt a b = False"

fun is_number :: "sortkey \<Rightarrow> bool" where
  "is_number (KNum a) = True"
| "is_number KInf = True"
| "is_number k = False"

fun is_str :: "sortkey \<Rightarrow> bool" where
  "is_str (KStr a) = True"
| "is_str k = False"

text \<open>A stable insertion sort on pairs of a key and an element, as \<^verbatim>\<open>sorted\<close> is stable.\<close>

fun insort_by :: "sortkey \<times> 'a \<Rightarrow> (sortkey \<times> 'a) list \<Rightarrow> (sortkey \<times> 'a) list" where
  "insort_by x [] = [x]"
| "insort_by x (y # ys) = (if key_lt (fst y) (fst x) then y # insort_by x ys else x # y # ys)"

definition sort_by :: "(sortkey \<times> 'a) list \<Rightarrow> (sortkey \<times> 'a) list" where
  "sort_by kvs = foldr insort_by kvs []"

fun keys_of :: "('a \<Rightarrow> exn + sortkey) \<Rightarrow> 'a list \<Rightarrow> exn + (sortkey \<times> 'a) list" where
  "keys_of key [] = Inr []"
| "keys_of key (x # xs) =
     (case key x of
        Inl e \<Rightarrow> Inl e
      | Inr k \<Rightarrow> (case keys_of key xs of Inl e \<Rightarrow> Inl e | Inr kvs \<Rightarrow> Inr ((k, x) # kvs)))"

text \<open>
  \<^verbatim>\<open>sorted(xs, key=key, reverse=reverse)\<close>: the key function is called on every element
  first; a list of two or more elements whose keys are not all numbers or all strings makes
  some comparison raise \<^verbatim>\<open>TypeError\<close>; with \<^verbatim>\<open>reverse=True\<close> elements of equal keys
  keep their order. Floats are reals here, so NaN keys are outside the model.
\<close>

definition sorted_py :: "('a \<Rightarrow> exn + sortkey) \<Rightarrow> bool \<Rightarrow> 'a list \<Rightarrow> exn + 'a list" where
  "sorted_py key reverse xs =
     (case keys_of key xs of
        Inl e \<Rightarrow> Inl e
      | Inr kvs \<Rightarrow>
         if length kvs \<le> 1 then Inr xs
         else if list_all is_number (map fst kvs) \<or> list_all is_str (map fst kvs)
         then Inr (map snd (if reverse then rev (sort_by (rev kvs)) else sort_by kvs))
         else Inl TypeError)"

text \<open>The slice \<^verbatim>\<open>xs[:limit]\<close>; a negative limit drops that many elements from the end.\<close>

definition slice_to :: "'a list \<Rightarrow> int \<Rightarrow> 'a list" where
  "slice_to xs limit =
     (if 0 \<le> limit then take (nat limit) xs else take (length xs - nat (- limit)) xs)"

text \<open>
  The seven functions of \<^verbatim>\<open>Database\<close> that query the latest reading of each machine, sort
  by one key and slice, with no \<^verbatim>\<open>try\<close> of their own, have one body; \<open>ranked\<close> is that
  body, with the statement, the key, the direction and the limit as arguments. Sorting the
  integer that a statement without rows would return raises \<^verbatim>\<open>TypeError\<close>.
\<close>

definition ranked ::
  "env \<Rightarrow> sql \<Rightarrow> string \<Rightarrow> bool \<Rightarrow> int \<Rightarrow> state \<Rightarrow> (exn + pyobj list) \<times> state" where
  "ranked ev query k reverse limit st =
     (case execute_query ev query st of
        (Inl e, st1) \<Rightarrow> (Inl e, st1)
      | (Inr (RowCount n), st1) \<Rightarrow> (Inl TypeError, st1)
      | (Inr (Rows all_machines), st1) \<Rightarrow>
         (case sorted_py (\<lambda>x. map_sum id key_of (subscript x k)) reverse all_machines of
            Inl e \<Rightarrow> (Inl e, st1)
          | Inr sorted_machines \<Rightarrow> (Inr (slice_to sorted_machines limit), st1)))"

definition get_machines_with_highest_temperature ::
  "env \<Rightarrow> int \<Rightarrow> state \<Rightarrow> (exn + pyobj list) \<times> state" where
  "get_machines_with_highest_temperature ev limit st =
     ranked ev (SELECT_LATEST ''enginetemperature'') ''temperature'' True limit st"

definition get_machines_with_highest_humidity ::
  "env \<Rightarrow> int \<Rightarrow> state \<Rightarrow> (exn + pyobj list) \<times> state" where
  "get_machines_with_highest_humidity ev limit st =
     ranked ev (SELECT_LATEST ''humidity'') ''humidity'' True limit st"

definition get_machines_with_highest_vibration ::
  "env \<Rightarrow> int \<Rightarrow> state \<Rightarrow> (exn + pyobj list) \<times> state" where
  "get_machines_with_highest_vibration ev limit st =
     ranked ev (SELECT_LATEST ''vibrationlevel'') ''vibration'' True limit st"

definition get_machines_with_highest_fuel_consumption ::
  "env \<Rightarrow> int \<Rightarrow> state \<Rightarrow> (exn + pyobj list) \<times> state" where
  "get_machines_with_highest_fuel_consumption ev limit st =
     ranked ev (SELECT_LATEST ''fuelconsumption'') ''fuel'' True limit st"

definition get_machines_with_lowest_temperature ::
  "env \<Rightarrow> int \<Rightarrow> state \<Rightarrow> (exn + pyobj list) \<times> state" where
  "get_machines_with_lowest_temperature ev limit st =
     ranked ev (SELECT_LATEST ''enginetemperature'') ''temperature'' False limit st"

definition get_machines_with_lowest_vibration ::
  "env \<Rightarrow> int \<Rightarrow> state \<Rightarrow> (exn + pyobj list) \<times> state" where
  "get_machines_with_lowest_vibration ev limit st =
     ranked ev (SELECT_LATEST ''vibrationlevel'') ''vibration'' False limit st"

definition get_machines_with_lowest_fuel_consumption ::
  "env \<Rightarrow> int \<Rightarrow> state \<Rightarrow> (exn + pyobj list) \<times> state" where
  "get_machines_with_lowest_fuel_consumption ev limit st =
     ranked ev (SELECT_LATEST ''fuelconsumption'') ''fuel'' False limit st"

definition get_machine_comparison_stats :: "env \<Rightarrow> state \<Rightarrow> (exn + qresult) \<times> state" where
  "get_machine_comparison_stats ev st = execute_query ev SELECT_COMPARISON st"

text \<open>
  \<^verbatim>\<open>get_machines_with_lowest_humidity\<close>: the body of its \<^verbatim>\<open>try\<close>, then the function
  with its \<^verbatim>\<open>except\<close> clause, which logs and returns the empty list.
\<close>

definition humidity_key :: "pyobj \<Rightarrow> exn + sortkey" where
  "humidity_key x =
     (case subscript x ''humidity'' of
        Inl e \<Rightarrow> Inl e
      | Inr PNone \<Rightarrow> Inr KInf
      | Inr v \<Rightarrow> Inr (key_of v))"

fun log_machines :: "pyobj list \<Rightarrow> state \<Rightarrow> (exn + unit) \<times> state" where
  "log_machines [] st = (Inr (), st)"
| "log_machines (machine # machines) st =
     (case subscript machine ''machineid'' of
        Inl e \<Rightarrow> (Inl e, st)
      | Inr i \<Rightarrow>
         (case subscript machine ''humidity'' of
            Inl e \<Rightarrow> (Inl e, st)
          | Inr h \<Rightarrow> log_machines machines (logger INFO ''machineid: humidity'' st)))"

definition lowest_humidity_body ::
  "env \<Rightarrow> int \<Rightarrow> state \<Rightarrow> (exn + pyobj list) \<times> state" where
  "lowest_humidity_body ev limit st =
     (case execute_query ev SELECT_LATEST_VALID_HUMIDITY st of
        (Inl e, st1) \<Rightarrow> (Inl e, st1)
      | (Inr (RowCount n), st1) \<Rightarrow>
          (Inr [], logger WARNING ''No valid humidity data found or query returned integer'' st1)
      | (Inr (Rows []), st1) \<Rightarrow>
          (Inr [], logger WARNING ''No valid humidity data found or query returned integer'' st1)
      | (Inr (Rows all_machines), st1) \<Rightarrow>
         (case sorted_py humidity_key False all_machines of
            Inl e \<Rightarrow> (Inl e, st1)
          | Inr sorted_machines \<Rightarrow>
             (case log_machines (slice_to sorted_machines limit)
                     (logger INFO ''Database query returned results'' st1) of
                (Inl e, st2) \<Rightarrow> (Inl e, st2)
              | (Inr u, st2) \<Rightarrow> (Inr (slice_to sorted_machines limit), st2))))"

definition get_machines_with_lowest_humidity ::
  "env \<Rightarrow> int \<Rightarrow> state \<Rightarrow> (exn + pyobj list) \<times> state" where
  "get_machines_with_lowest_humidity ev limit st =
     (case lowest_humidity_body ev limit st of
        (Inl e, st1) \<Rightarrow> (Inr [], logger ERROR ''Error in get_machines_with_lowest_humidity'' st1)
      | (Inr ms, st1) \<Rightarrow> (Inr ms, st1))"

text \<open>\<^verbatim>\<open>a in b\<close> on strings.\<close>

fun startswith :: "string \<Rightarrow> string \<Rightarrow> bool" where
  "startswith s [] = True"
| "startswith [] (p # ps) = False"
| "startswith (c # cs) (p # ps) = (c = p \<and> startswith cs ps)"

fun contains :: "string \<Rightarrow> string \<Rightarrow> bool" where
  "contains [] a = (a = [])"
| "contains (c # cs) a = (startswith (c # cs) a \<or> contains cs a)"

text \<open>\<^verbatim>\<open>machine.get(k)\<close> taken as a condition: false on a missing key.\<close>

definition get_truthy :: "(string \<times> pyval) list \<Rightarrow> string \<Rightarrow> bool" where
  "get_truthy d k = (case map_of d k of None \<Rightarrow> False | Some v \<Rightarrow> truthy v)"

text \<open>
  The test of the loop of \<^verbatim>\<open>get_machines_by_status\<close> on one element: whether it is
  appended. \<^verbatim>\<open>.lower()\<close> on a status that is not a string raises \<^verbatim>\<open>AttributeError\<close>.
  The filter is \<open>None\<close> or a string; it counts as given when it is a non-empty string.
\<close>

fun keeps :: "string option \<Rightarrow> pyobj \<Rightarrow> exn + bool" where
  "keeps status_filter NotADict = Inr False"
| "keeps status_filter (Dict machine) =
     (if get_truthy machine ''machineid'' \<and> get_truthy machine ''status''
      then (case status_filter of
              None \<Rightarrow> Inr True
            | Some f \<Rightarrow>
               if f = [] then Inr True
               else (case dict_get machine ''status'' (PStr []) of
                       PStr actual_status \<Rightarrow> Inr (contains (lower actual_status) (lower f))
                     | _ \<Rightarrow> Inl AttributeError))
      else Inr False)"

fun valid_machines :: "string option \<Rightarrow> pyobj list \<Rightarrow> exn + pyobj list" where
  "valid_machines status_filter [] = Inr []"
| "valid_machines status_filter (machine # result) =
     (case keeps status_filter machine of
        Inl e \<Rightarrow> Inl e
      | Inr b \<Rightarrow>
         (case valid_machines status_filter result of
            Inl e \<Rightarrow> Inl e
          | Inr ms \<Rightarrow> Inr (if b then machine # ms else ms)))"

definition status_query :: "string option \<Rightarrow> sql" where
  "status_query status_filter =
     (case status_filter of
        None \<Rightarrow> SELECT_BY_STATUS None
      | Some f \<Rightarrow> if f = [] then SELECT_BY_STATUS None
                  else SELECT_BY_STATUS (Some (''%'' @ f @ ''%'')))"

definition machines_by_status_body ::
  "env \<Rightarrow> string option \<Rightarrow> state \<Rightarrow> (exn + pyobj list) \<times> state" where
  "machines_by_status_body ev status_filter st =
     (case execute_query ev (status_query status_filter) st of
        (Inl e, st1) \<Rightarrow> (Inl e, st1)
      | (Inr (RowCount n), st1) \<Rightarrow>
          (Inr [], logger WARNING ''Query returned integer instead of list'' st1)
      | (Inr (Rows []), st1) \<Rightarrow> (Inr [], logger INFO ''No machines found with status filter'' st1)
      | (Inr (Rows result), st1) \<Rightarrow>
         (case valid_machines status_filter result of
            Inl e \<Rightarrow> (Inl e, st1)
          | Inr ms \<Rightarrow> (Inr ms, logger INFO ''Found ACCURATE machines with status filter'' st1)))"

definition get_machines_by_status ::
  "env \<Rightarrow> string option \<Rightarrow> state \<Rightarrow> (exn + pyobj list) \<times> state" where
  "get_machines_by_status ev status_filter st =
     (case machines_by_status_body ev status_filter st of
        (Inl e, st1) \<Rightarrow> (Inr [], logger ERROR ''Error getting machines by status'' st1)
      | (Inr ms, st1) \<Rightarrow> (Inr ms, st1))"

section \<open>DatabaseInitializer\<close>

text \<open>\<^verbatim>\<open>res[0]['count'] if res else 0\<close> in \<^verbatim>\<open>verify_database_setup\<close>.\<close>

fun first_count :: "qresult \<Rightarrow> exn + pyval" where
  "first_count (RowCount n) = (if n = 0 then Inr (PInt 0) else Inl TypeError)"
| "first_count (Rows []) = Inr (PInt 0)"
| "first_count (Rows (r # rs)) = subscript r ''count''"

fun verify_tables :: "env \<Rightarrow> string list \<Rightarrow> state \<Rightarrow> state" where
  "verify_tables ev [] st = st"
| "verify_tables ev (t # tables) st =
     (case execute_query ev (SELECT_COUNT t) st of
        (Inl e, st1) \<Rightarrow> verify_tables ev tables (logger WARNING ''Could not check table'' st1)
      | (Inr res, st1) \<Rightarrow>
         (case first_count res of
            Inl e \<Rightarrow> verify_tables ev tables (logger WARNING ''Could not check table'' st1)
          | Inr c \<Rightarrow> verify_tables ev tables (logger INFO ''table: count rows'' st1)))"

definition verify_database_setup :: "env \<Rightarrow> state \<Rightarrow> state" where
  "verify_database_setup ev st =
     verify_tables ev [''telemetry'', ''user_query_log'', ''predictions''] st"

text \<open>
  The body of the \<^verbatim>\<open>try\<close> of \<^verbatim>\<open>setup_complete_database\<close>. The path is \<open>None\<close> or a
  string; \<^verbatim>\<open>DataIngestor()\<close> calls \<^verbatim>\<open>get_db()\<close>.
\<close>

definition setup_body :: "env \<Rightarrow> string option \<Rightarrow> state \<Rightarrow> (exn + unit) \<times> state" where
  "setup_body ev csv_file_path st =
     (let st1 = init_db ev (logger INFO ''Starting complete database setup'' st) in
      case (case csv_file_path of
              None \<Rightarrow> (Inr (), st1)
            | Some p \<Rightarrow>
               if p \<noteq> [] \<and> path_exists st1 p
               then (case get_db ev st1 of
                       (Inl e, st2) \<Rightarrow> (Inl e, st2)
                     | (Inr u, st2) \<Rightarrow>
                        (case ingest_csv ev p st2 of
                           (Inl e, st3) \<Rightarrow> (Inl e, st3)
                         | (Inr count, st3) \<Rightarrow>
                            (Inr (), logger INFO ''rows inserted into telemetry'' st3)))
               else (Inr (), st1)) of
        (Inl e, st4) \<Rightarrow> (Inl e, st4)
      | (Inr u, st4) \<Rightarrow>
         (Inr (), logger INFO ''Database setup completed successfully'' (verify_database_setup ev st4)))"

definition setup_complete_database ::
  "env \<Rightarrow> string option \<Rightarrow> state \<Rightarrow> (exn + unit) \<times> state" where
  "setup_complete_database ev csv_file_path st =
     (case setup_body ev csv_file_path st of
        (Inl e, st1) \<Rightarrow> (Inr (), logger ERROR ''Database setup failed'' st1)
      | (Inr u, st1) \<Rightarrow> (Inr (), st1))"

section \<open>ScalerTester\<close>

definition feature_order :: "string list" where
  "feature_order =
    [''fuelconsumption'', ''vibrationlevel'', ''humidity'', ''pressure'', ''poweroutput'',
     ''operatinghours'', ''timestamp_epoch'', ''hour'', ''dayofweek'', ''month'']"

text \<open>The row of \<^verbatim>\<open>feature_vector\<close>: \<^verbatim>\<open>[features_dict.get(f, 0.0) for f in self.feature_order]\<close>.\<close>

definition feature_vector :: "(string \<times> real) list \<Rightarrow> real list" where
  "feature_vector features_dict = map (\<lambda>f. dict_get features_dict f 0) feature_order"

text \<open>
  \<^verbatim>\<open>test_scaler_with_real_data\<close> has no \<^verbatim>\<open>return\<close> with a value: every path ends the
  function with None, which is \<open>Inr None\<close> here. The scaled row goes to the log.
\<close>

definition test_scaler_with_real_data ::
  "string \<Rightarrow> (string \<times> real) list \<Rightarrow> state \<Rightarrow> (exn + real list option) \<times> state" where
  "test_scaler_with_real_data scaler_path features_dict st =
     (if \<not> path_exists st scaler_path then (Inr None, logger ERROR ''Scaler not found'' st)
      else case (case joblib_load st scaler_path of
                   Inl e \<Rightarrow> Inl e
                 | Inr scaler \<Rightarrow> transform scaler (feature_vector features_dict)) of
        Inl e \<Rightarrow> (Inr None, logger ERROR ''Scaler test failed'' st)
      | Inr scaled \<Rightarrow> (Inr None, st\<lparr>logged := logged st @ [(INFO, Scaled scaled)]\<rparr>))"

section \<open>The scheduled tasks\<close>

definition CSV_FILE :: string where
  "CSV_FILE = ''/opt/airflow/project/data/machine_data_cleaned.csv''"

text \<open>
  \<^verbatim>\<open>task_init_database\<close> of the DAG: \<^verbatim>\<open>DatabaseInitializer()\<close>, whose constructor calls
  \<^verbatim>\<open>get_db()\<close> outside any \<^verbatim>\<open>try\<close>, then \<^verbatim>\<open>setup_complete_database(CSV_FILE)\<close>.
\<close>

definition task_init_database :: "env \<Rightarrow> state \<Rightarrow> (exn + unit) \<times> state" where
  "task_init_database ev st =
     (case get_db ev st of
        (Inl e, st1) \<Rightarrow> (Inl e, st1)
      | (Inr u, st1) \<Rightarrow> setup_complete_database ev (Some CSV_FILE) st1)"

section \<open>Example inputs\<close>

text \<open>
  Concrete environments, states and inputs at which the theorems below are instantiated:
  an environment in which nothing raises, one whose server is down, an empty state with and
  without a connection, artifacts of each kind, and a small source file.
\<close>

definition quiet_env :: env where
  "quiet_env =
     \<lparr>connect_exn = None, cursor_exn = None, page_exn = (\<lambda>page. None), commit_exn = None,
      rollback_exn = None, dump_outcome = (\<lambda>p. Dumped), execute_exn = (\<lambda>q. None),
      fetchall = (\<lambda>q. Inr []), rowcount = (\<lambda>q. 0)\<rparr>"

definition down_env :: env where
  "down_env =
     quiet_env\<lparr>connect_exn := Some OperationalError, cursor_exn := Some OperationalError\<rparr>"

definition rejecting_env :: env where
  "rejecting_env = quiet_env\<lparr>page_exn := (\<lambda>page. Some DatabaseError)\<rparr>"

text \<open>
  The server closes the connection while the INSERT runs: the statement raises
  \<^verbatim>\<open>OperationalError\<close>, and \<^verbatim>\<open>rollback\<close> on the closed connection raises
  \<^verbatim>\<open>InterfaceError\<close>.
\<close>

definition dropped_env :: env where
  "dropped_env =
     quiet_env\<lparr>page_exn := (\<lambda>page. Some OperationalError), rollback_exn := Some InterfaceError\<rparr>"

definition empty_state :: state where
  "empty_state =
     \<lparr>disk = Map.empty, db_instance = True, telemetry = [], pending = [], commits = 0,
      rollbacks = 0, writes = [], logged = []\<rparr>"

definition fresh_state :: state where
  "fresh_state = empty_state\<lparr>db_instance := False\<rparr>"

definition opaque_artifact :: artifact where
  "opaque_artifact =
     \<lparr>feature_names_in = None, on_setattr = Accepts, transform = (\<lambda>v. Inr v)\<rparr>"

definition read_only_artifact :: artifact where
  "read_only_artifact =
     \<lparr>feature_names_in = Some [''FuelConsumption'', ''Hour''],
      on_setattr = Raises AttributeError, transform = (\<lambda>v. Inr v)\<rparr>"

definition identity_scaler :: artifact where
  "identity_scaler =
     \<lparr>feature_names_in = Some feature_order, on_setattr = Accepts, transform = (\<lambda>v. Inr v)\<rparr>"

definition artifact_state :: "artifact \<Rightarrow> state" where
  "artifact_state a = empty_state\<lparr>disk := [''artifact.pkl'' \<mapsto> Pickle a]\<rparr>"

text \<open>The feature values that \<^verbatim>\<open>task_test_scaler\<close> of the DAG passes.\<close>

definition test_data :: "(string \<times> real) list" where
  "test_data =
    [(''fuelconsumption'', 10.5), (''vibrationlevel'', 4), (''humidity'', 68),
     (''pressure'', 1000), (''poweroutput'', 185), (''operatinghours'', 120),
     (''timestamp_epoch'', 1756684800), (''hour'', 12), (''dayofweek'', 2), (''month'', 9)]"

text \<open>A file of three columns and two rows; the second row has no value in any column.\<close>

definition small_frame :: dataframe where
  "small_frame =
     \<lparr>columns = [''MachineID'', ''Humidity'', ''Status''],
      rows = [[Str ''M1'', Num 40, Str ''Active''], [NaN, NaN, NaN]]\<rparr>"

text \<open>The two tuples that are built from it.\<close>

definition small_tuples :: "tuple list" where
  "small_tuples =
    [[PyScalar (Str ''M1''), PyNone, PyNone, PyNone, PyNone, PyNone, PyNone,
      PyScalar (Num 40), PyNone, PyNone, PyNone, PyScalar (Str ''Active''),
      PyNone, PyNone, PyNone, PyNone, PyNone],
     [PyScalar NaN, PyNone, PyNone, PyNone, PyNone, PyNone, PyNone,
      PyScalar (Num 65), PyNone, PyNone, PyNone, PyScalar (Str ''Unknown''),
      PyNone, PyNone, PyNone, PyNone, PyNone]]"

definition csv_state :: state where
  "csv_state = empty_state\<lparr>disk := [''data.csv'' \<mapsto> Csv small_frame]\<rparr>"

text \<open>A file whose two column names become one canonical name, with one row.\<close>

definition twin_frame :: dataframe where
  "twin_frame = \<lparr>columns = [''Humidity'', ''humidity''], rows = [[Num 40, Num 41]]\<rparr>"

definition twin_state :: state where
  "twin_state = empty_state\<lparr>disk := [''twin.csv'' \<mapsto> Csv twin_frame]\<rparr>"

text \<open>Rows that a status query could return: two well-formed, the others not.\<close>

definition status_rows :: "pyobj list" where
  "status_rows =
    [Dict [(''machineid'', PStr ''M1''), (''status'', PStr ''Fault'')],
     Dict [(''machineid'', PStr ''''), (''status'', PStr ''Fault'')],
     Dict [(''machineid'', PStr ''M3''), (''status'', PNone)],
     NotADict,
     Dict [(''machineid'', PStr ''M5''), (''status'', PStr ''Idle'')]]"

definition status_env :: env where
  "status_env = quiet_env\<lparr>fetchall := (\<lambda>q. Inr status_rows)\<rparr>"

section \<open>Feature-name translation\<close>

lemma lower_char_not_upper: "lower_char c \<notin> set ascii_uppercase"
  by (simp add: lower_char_def ascii_uppercase_def ascii_lowercase_def)

lemma lower_char_fix: "c \<notin> set ascii_uppercase \<Longrightarrow> lower_char c = c"
  by (simp add: lower_char_def ascii_uppercase_def ascii_lowercase_def)

lemma lower_no_upper: "set (lower s) \<inter> set ascii_uppercase = {}"
  using lower_char_not_upper by (auto simp: lower_def)

lemma lower_fix: "set s \<inter> set ascii_uppercase = {} \<Longrightarrow> lower s = s"
  unfolding lower_def by (rule map_idI) (auto intro: lower_char_fix)

lemma lower_lower: "lower (lower s) = lower s"
  by (rule lower_fix) (rule lower_no_upper)

lemma feature_key_has_upper:
  "map_of feature_mapping s = Some v \<Longrightarrow> set s \<inter> set ascii_uppercase \<noteq> {}"
  by (auto simp: feature_mapping_def ascii_uppercase_def split: if_splits)

lemma feature_value_no_upper:
  "map_of feature_mapping s = Some v \<Longrightarrow> set v \<inter> set ascii_uppercase = {}"
  by (auto simp: feature_mapping_def ascii_uppercase_def split: if_splits)

lemma lowercase_not_feature_key:
  "set s \<inter> set ascii_uppercase = {} \<Longrightarrow> map_of feature_mapping s = None"
  using feature_key_has_upper [of s] by (cases "map_of feature_mapping s") auto

lemma translated_no_upper:
  "set (dict_get feature_mapping f (lower f)) \<inter> set ascii_uppercase = {}"
  by (cases "map_of feature_mapping f")
     (simp_all add: dict_get_def lower_no_upper feature_value_no_upper)

lemma translate_lowercase:
  "set s \<inter> set ascii_uppercase = {} \<Longrightarrow> dict_get feature_mapping s (lower s) = s"
  by (simp add: dict_get_def lowercase_not_feature_key lower_fix)

text \<open>
  C10. Translating a list of feature names twice gives the same list as translating it once:
  a translated name has no capital letter, no key of the mapping table is free of capital
  letters, and lowering a name without capitals leaves it as it is.
\<close>

theorem new_features_idempotent: "new_features (new_features names) = new_features names"
  by (simp add: new_features_def translate_lowercase translated_no_upper)

section \<open>Artifacts without a feature-name attribute\<close>

text \<open>
  C7. For an existing artifact that unpickles to an object without the attribute
  \<^verbatim>\<open>feature_names_in_\<close>, both \<^verbatim>\<open>fix_model_features\<close> and \<^verbatim>\<open>fix_scaler_features\<close>
  return True (their result is a boolean: neither can raise), and neither writes the file:
  the files are as before and \<^verbatim>\<open>joblib.dump\<close> is not called.
\<close>

theorem fix_without_feature_names:
  assumes "disk st p = Some (Pickle a)" and "feature_names_in a = None"
  shows "fst (fix_model_features ev p st) = True
       \<and> disk (snd (fix_model_features ev p st)) = disk st
       \<and> writes (snd (fix_model_features ev p st)) = writes st
       \<and> fst (fix_scaler_features ev p st) = True
       \<and> disk (snd (fix_scaler_features ev p st)) = disk st
       \<and> writes (snd (fix_scaler_features ev p st)) = writes st"
  using assms
  by (simp add: fix_model_features_def fix_scaler_features_def path_exists_def joblib_load_def
        logger_def)

theorem fix_without_feature_names_witness:
  "fst (fix_model_features quiet_env ''artifact.pkl'' (artifact_state opaque_artifact)) = True
   \<and> fst (fix_scaler_features quiet_env ''artifact.pkl'' (artifact_state opaque_artifact)) = True
   \<and> writes (snd (fix_model_features quiet_env ''artifact.pkl'' (artifact_state opaque_artifact))) = []
   \<and> writes (snd (fix_scaler_features quiet_env ''artifact.pkl'' (artifact_state opaque_artifact))) = []"
  using fix_without_feature_names [of "artifact_state opaque_artifact" "''artifact.pkl''"
      opaque_artifact quiet_env]
  by (simp add: artifact_state_def opaque_artifact_def empty_state_def)

section \<open>Artifacts whose feature names are read-only\<close>

text \<open>
  On a model whose attribute is read-only, \<^verbatim>\<open>fix_model_features\<close> logs a warning, dumps
  the unchanged object to the same path and returns True.
\<close>

lemma fix_model_read_only:
  assumes "disk st p = Some (Pickle a)" and "feature_names_in a = Some names"
    and "on_setattr a = Raises AttributeError" and "dump_outcome ev p = Dumped"
  shows "fix_model_features ev p st =
     (True, logger INFO ''Saved model file''
        ((logger WARNING ''Cannot modify feature_names_in_ (read-only)'' st)
           \<lparr>disk := (disk st)(p \<mapsto> Pickle a), writes := writes st @ [p]\<rparr>))"
  using assms
  by (simp add: fix_model_features_def path_exists_def joblib_load_def joblib_dump_def
        logger_def)

text \<open>
  C2. On a scaler whose attribute exists and is read-only, \<^verbatim>\<open>fix_scaler_features\<close> does
  not do what \<^verbatim>\<open>fix_model_features\<close> does: the \<^verbatim>\<open>AttributeError\<close> of the assignment
  reaches the only \<^verbatim>\<open>except\<close> clause, an error is logged (no warning), the file is not
  written again and the function returns False.
\<close>

theorem fix_scaler_read_only:
  assumes "disk st p = Some (Pickle a)" and "feature_names_in a = Some names"
    and "on_setattr a = Raises AttributeError"
  shows "fix_scaler_features ev p st = (False, logger ERROR ''Failed to fix scaler features'' st)"
  using assms
  by (simp add: fix_scaler_features_def path_exists_def joblib_load_def)

theorem fix_scaler_read_only_witness:
  "fst (fix_scaler_features quiet_env ''artifact.pkl'' (artifact_state read_only_artifact)) = False
   \<and> writes (snd (fix_scaler_features quiet_env ''artifact.pkl'' (artifact_state read_only_artifact))) = []
   \<and> logged (snd (fix_scaler_features quiet_env ''artifact.pkl'' (artifact_state read_only_artifact)))
       = [(ERROR, Text ''Failed to fix scaler features'')]
   \<and> fst (fix_model_features quiet_env ''artifact.pkl'' (artifact_state read_only_artifact)) = True
   \<and> writes (snd (fix_model_features quiet_env ''artifact.pkl'' (artifact_state read_only_artifact)))
       = [''artifact.pkl'']"
  using fix_scaler_read_only [of "artifact_state read_only_artifact" "''artifact.pkl''"
      read_only_artifact "[''FuelConsumption'', ''Hour'']" quiet_env]
    fix_model_read_only [of "artifact_state read_only_artifact" "''artifact.pkl''"
      read_only_artifact "[''FuelConsumption'', ''Hour'']" quiet_env]
  by (simp add: artifact_state_def read_only_artifact_def empty_state_def quiet_env_def
        logger_def)

section \<open>The scaler test\<close>

text \<open>
  C6, as amended. \<^verbatim>\<open>test_scaler_with_real_data\<close> returns None on every input and never
  raises. The row given to \<^verbatim>\<open>transform\<close> has length 10: slot \<open>i\<close> holds the value the
  mapping has for the \<open>i\<close>-th name of \<open>feature_order\<close>, and 0.0 when it has none. When the
  file holds a scaler whose transform succeeds, the scaled row is logged at level INFO; a
  missing file, a file that does not load and a failing transform are logged as errors.
\<close>

theorem scaler_test_logs_only:
  "fst (test_scaler_with_real_data scaler_path features_dict st) = Inr None
   \<and> length (feature_vector features_dict) = 10
   \<and> (\<forall>i < 10. feature_vector features_dict ! i
        = (case map_of features_dict (feature_order ! i) of None \<Rightarrow> 0 | Some v \<Rightarrow> v))
   \<and> (\<forall>a scaled. disk st scaler_path = Some (Pickle a)
        \<longrightarrow> transform a (feature_vector features_dict) = Inr scaled
        \<longrightarrow> logged (snd (test_scaler_with_real_data scaler_path features_dict st))
              = logged st @ [(INFO, Scaled scaled)])
   \<and> (disk st scaler_path = None
        \<longrightarrow> logged (snd (test_scaler_with_real_data scaler_path features_dict st))
              = logged st @ [(ERROR, Text ''Scaler not found'')])
   \<and> (\<forall>a e. disk st scaler_path = Some (Pickle a)
        \<longrightarrow> transform a (feature_vector features_dict) = Inl e
        \<longrightarrow> logged (snd (test_scaler_with_real_data scaler_path features_dict st))
              = logged st @ [(ERROR, Text ''Scaler test failed'')])
   \<and> (\<forall>e. joblib_load st scaler_path = Inl e \<longrightarrow> disk st scaler_path \<noteq> None
        \<longrightarrow> logged (snd (test_scaler_with_real_data scaler_path features_dict st))
              = logged st @ [(ERROR, Text ''Scaler test failed'')])"
proof -
  have len: "length (feature_vector features_dict) = 10"
    by (simp add: feature_vector_def feature_order_def)
  have slot: "\<forall>i < 10. feature_vector features_dict ! i
        = (case map_of features_dict (feature_order ! i) of None \<Rightarrow> 0 | Some v \<Rightarrow> v)"
  proof (intro allI impI)
    fix i :: nat assume "i < 10"
    then have "i < length feature_order" by (simp add: feature_order_def)
    then show "feature_vector features_dict ! i
        = (case map_of features_dict (feature_order ! i) of None \<Rightarrow> 0 | Some v \<Rightarrow> v)"
      by (simp add: feature_vector_def dict_get_def)
  qed
  have ret: "fst (test_scaler_with_real_data scaler_path features_dict st) = Inr None"
    by (simp add: test_scaler_with_real_data_def split: sum.splits)
  have load: "\<forall>e. joblib_load st scaler_path = Inl e \<longrightarrow> disk st scaler_path \<noteq> None
        \<longrightarrow> logged (snd (test_scaler_with_real_data scaler_path features_dict st))
              = logged st @ [(ERROR, Text ''Scaler test failed'')]"
    by (simp add: test_scaler_with_real_data_def path_exists_def logger_def)
  show ?thesis using len slot ret load
    by (simp add: test_scaler_with_real_data_def path_exists_def joblib_load_def logger_def)
qed

text \<open>
  C6 as stated fails: with the identity scaler stored and the ten features of the DAG's
  task, the transform yields the row of the ten values, and the function does not return it.
\<close>

theorem scaler_test_counterexample:
  "transform identity_scaler (feature_vector test_data)
     = Inr [10.5, 4, 68, 1000, 185, 120, 1756684800, 12, 2, 9]
   \<and> fst (test_scaler_with_real_data ''artifact.pkl'' test_data (artifact_state identity_scaler))
     \<noteq> Inr (Some [10.5, 4, 68, 1000, 185, 120, 1756684800, 12, 2, 9])"
  by (simp add: test_scaler_with_real_data_def identity_scaler_def feature_vector_def
        feature_order_def test_data_def dict_get_def artifact_state_def empty_state_def
        path_exists_def joblib_load_def)

theorem scaler_test_logs_only_witness:
  "fst (test_scaler_with_real_data ''artifact.pkl'' [(''humidity'', 68)]
          (artifact_state identity_scaler)) = Inr None
   \<and> feature_vector [(''humidity'', 68)] ! 2 = 68
   \<and> feature_vector [(''humidity'', 68)] ! 3 = 0
   \<and> logged (snd (test_scaler_with_real_data ''artifact.pkl'' [(''humidity'', 68)]
          (artifact_state identity_scaler)))
       = [(INFO, Scaled [0, 0, 68, 0, 0, 0, 0, 0, 0, 0])]
   \<and> logged (snd (test_scaler_with_real_data ''missing.pkl'' [(''humidity'', 68)]
          (artifact_state identity_scaler)))
       = [(ERROR, Text ''Scaler not found'')]"
proof -
  have fv: "feature_vector [(''humidity'', 68)] = [0, 0, 68, 0, 0, 0, 0, 0, 0, 0]"
    by (simp add: feature_vector_def feature_order_def dict_get_def)
  have d: "disk (artifact_state identity_scaler) ''artifact.pkl'' = Some (Pickle identity_scaler)"
    and m: "disk (artifact_state identity_scaler) ''missing.pkl'' = None"
    and l: "logged (artifact_state identity_scaler) = []"
    by (simp_all add: artifact_state_def empty_state_def)
  have t: "transform identity_scaler (feature_vector [(''humidity'', 68)])
      = Inr [0, 0, 68, 0, 0, 0, 0, 0, 0, 0]"
    by (simp add: identity_scaler_def fv)
  show ?thesis
    using scaler_test_logs_only [of "''artifact.pkl''" "[(''humidity'', 68)]"
        "artifact_state identity_scaler"]
      scaler_test_logs_only [of "''missing.pkl''" "[(''humidity'', 68)]"
        "artifact_state identity_scaler"] d m l t
    by (simp add: fv)
qed

section \<open>Failures in the query facade\<close>

lemma execute_query_cursor_fails:
  "cursor_exn ev = Some e \<Longrightarrow> rollback_exn ev = None \<Longrightarrow>
     fst (execute_query ev q st) = Inl e"
  by (simp add: execute_query_def rollback_and_raise_def rollback_def)

lemma ranked_propagates:
  "fst (execute_query ev q st) = Inl e \<Longrightarrow> fst (ranked ev q k r limit st) = Inl e"
  by (cases "execute_query ev q st") (simp add: ranked_def)

lemma lowest_humidity_caught:
  "fst (execute_query ev SELECT_LATEST_VALID_HUMIDITY st) = Inl e \<Longrightarrow>
     fst (get_machines_with_lowest_humidity ev limit st) = Inr []"
  by (cases "execute_query ev SELECT_LATEST_VALID_HUMIDITY st")
     (simp add: get_machines_with_lowest_humidity_def lowest_humidity_body_def)

lemma machines_by_status_caught:
  "fst (execute_query ev (status_query sf) st) = Inl e \<Longrightarrow>
     fst (get_machines_by_status ev sf st) = Inr []"
  by (cases "execute_query ev (status_query sf) st")
     (simp add: get_machines_by_status_def machines_by_status_body_def)

text \<open>
  C5. When the underlying \<^verbatim>\<open>execute_query\<close> raises \<open>e\<close>, only
  \<^verbatim>\<open>get_machines_with_lowest_humidity\<close> and \<^verbatim>\<open>get_machines_by_status\<close> catch the exception
  and return the empty list. The seven other highest/lowest functions and
  \<^verbatim>\<open>get_machine_comparison_stats\<close> have no \<^verbatim>\<open>try\<close>: the exception, which
  \<^verbatim>\<open>execute_query\<close> has logged and raised again, reaches their caller.
\<close>

theorem facade_failure_propagates:
  "(fst (execute_query ev (SELECT_LATEST ''enginetemperature'') st) = Inl e \<longrightarrow>
      fst (get_machines_with_highest_temperature ev limit st) = Inl e
      \<and> fst (get_machines_with_lowest_temperature ev limit st) = Inl e)
   \<and> (fst (execute_query ev (SELECT_LATEST ''humidity'') st) = Inl e \<longrightarrow>
      fst (get_machines_with_highest_humidity ev limit st) = Inl e)
   \<and> (fst (execute_query ev (SELECT_LATEST ''vibrationlevel'') st) = Inl e \<longrightarrow>
      fst (get_machines_with_highest_vibration ev limit st) = Inl e
      \<and> fst (get_machines_with_lowest_vibration ev limit st) = Inl e)
   \<and> (fst (execute_query ev (SELECT_LATEST ''fuelconsumption'') st) = Inl e \<longrightarrow>
      fst (get_machines_with_highest_fuel_consumption ev limit st) = Inl e
      \<and> fst (get_machines_with_lowest_fuel_consumption ev limit st) = Inl e)
   \<and> (fst (execute_query ev SELECT_COMPARISON st) = Inl e \<longrightarrow>
      fst (get_machine_comparison_stats ev st) = Inl e)
   \<and> (fst (execute_query ev SELECT_LATEST_VALID_HUMIDITY st) = Inl e \<longrightarrow>
      fst (get_machines_with_lowest_humidity ev limit st) = Inr [])
   \<and> (fst (execute_query ev (status_query status_filter) st) = Inl e \<longrightarrow>
      fst (get_machines_by_status ev status_filter st) = Inr [])"
  by (simp add: get_machines_with_highest_temperature_def get_machines_with_highest_humidity_def
        get_machines_with_highest_vibration_def get_machines_with_highest_fuel_consumption_def
        get_machines_with_lowest_temperature_def get_machines_with_lowest_vibration_def
        get_machines_with_lowest_fuel_consumption_def get_machine_comparison_stats_def
        ranked_propagates lowest_humidity_caught machines_by_status_caught)

theorem facade_failure_propagates_witness:
  "fst (get_machines_with_highest_temperature down_env 5 empty_state) = Inl OperationalError
   \<and> fst (get_machine_comparison_stats down_env empty_state) = Inl OperationalError
   \<and> fst (get_machines_by_status down_env None empty_state) = Inr []"
proof -
  have c: "cursor_exn down_env = Some OperationalError"
    and r: "rollback_exn down_env = None"
    by (simp_all add: down_env_def quiet_env_def)
  have q: "fst (execute_query down_env q empty_state) = Inl OperationalError" for q
    by (rule execute_query_cursor_fails [OF c r])
  from facade_failure_propagates [of down_env empty_state OperationalError 5 None] q
  show ?thesis by blast
qed

section \<open>The status filter\<close>

lemma keeps_valid:
  "keeps sf m = Inr True \<Longrightarrow>
     \<exists>d. m = Dict d \<and> get_truthy d ''machineid'' \<and> get_truthy d ''status''"
  by (cases m) (auto split: if_splits)

lemma valid_machines_valid:
  "valid_machines sf rs = Inr ms \<Longrightarrow> m \<in> set ms \<Longrightarrow>
     m \<in> set rs \<and> (\<exists>d. m = Dict d \<and> get_truthy d ''machineid'' \<and> get_truthy d ''status'')"
proof (induction rs arbitrary: ms)
  case Nil
  then show ?case by simp
next
  case (Cons r rs)
  from Cons.prems(1) obtain b ms' where k: "keeps sf r = Inr b"
    and v: "valid_machines sf rs = Inr ms'" and ms: "ms = (if b then r # ms' else ms')"
    by (auto split: sum.splits)
  show ?case
  proof (cases "m \<in> set ms'")
    case True
    with Cons.IH [OF v] show ?thesis by simp
  next
    case False
    with Cons.prems(2) ms have "b" and "m = r" by (auto split: if_splits)
    with k keeps_valid [of sf r] show ?thesis by simp
  qed
qed

lemma get_truthy_non_empty:
  "get_truthy d k \<Longrightarrow> \<exists>v. map_of d k = Some v \<and> v \<noteq> PNone \<and> v \<noteq> PStr []"
  by (auto simp: get_truthy_def split: option.splits)

lemma machines_by_status_total:
  "\<exists>ms. fst (get_machines_by_status ev sf st) = Inr ms"
  by (cases "machines_by_status_body ev sf st"; cases "fst (machines_by_status_body ev sf st)")
     (auto simp: get_machines_by_status_def)

lemma machines_by_status_from_valid:
  assumes "fst (get_machines_by_status ev sf st) = Inr ms" and "m \<in> set ms"
  shows "\<exists>rs. valid_machines sf rs = Inr ms"
  using assms
  by (auto simp: get_machines_by_status_def machines_by_status_body_def
           simp del: valid_machines.simps
           split: prod.splits sum.splits qresult.splits list.splits)

lemma status_rows_all:
  "fst (get_machines_by_status status_env None empty_state)
     = Inr [Dict [(''machineid'', PStr ''M1''), (''status'', PStr ''Fault'')],
            Dict [(''machineid'', PStr ''M5''), (''status'', PStr ''Idle'')]]"
  by (simp add: get_machines_by_status_def machines_by_status_body_def status_query_def
        execute_query_def status_env_def quiet_env_def status_rows_def get_truthy_def)

lemma status_rows_fault:
  "fst (get_machines_by_status status_env (Some ''fault'') empty_state)
     = Inr [Dict [(''machineid'', PStr ''M1''), (''status'', PStr ''Fault'')]]"
  by (simp add: get_machines_by_status_def machines_by_status_body_def status_query_def
        execute_query_def status_env_def quiet_env_def status_rows_def get_truthy_def
        dict_get_def lower_def lower_char_def ascii_uppercase_def ascii_lowercase_def)

text \<open>
  C9. \<^verbatim>\<open>get_machines_by_status\<close> returns a list on every input, with or without a status
  filter, and every element of it is a dict whose \<^verbatim>\<open>machineid\<close> and \<^verbatim>\<open>status\<close> are
  present and neither None nor the empty string: the loop drops every other element the
  query returned.
\<close>

theorem machines_by_status_non_empty_fields:
  "\<exists>ms. fst (get_machines_by_status ev status_filter st) = Inr ms
     \<and> (\<forall>m \<in> set ms. \<exists>d i s. m = Dict d
           \<and> map_of d ''machineid'' = Some i \<and> i \<noteq> PNone \<and> i \<noteq> PStr []
           \<and> map_of d ''status'' = Some s \<and> s \<noteq> PNone \<and> s \<noteq> PStr [])"
proof -
  obtain ms where r: "fst (get_machines_by_status ev status_filter st) = Inr ms"
    using machines_by_status_total by blast
  have "\<exists>d i s. m = Dict d
           \<and> map_of d ''machineid'' = Some i \<and> i \<noteq> PNone \<and> i \<noteq> PStr []
           \<and> map_of d ''status'' = Some s \<and> s \<noteq> PNone \<and> s \<noteq> PStr []" if "m \<in> set ms" for m
  proof -
    from machines_by_status_from_valid [OF r that] obtain rs
      where "valid_machines status_filter rs = Inr ms" ..
    from valid_machines_valid [OF this that] obtain d
      where "m = Dict d" "get_truthy d ''machineid''" "get_truthy d ''status''" by blast
    with get_truthy_non_empty [of d "''machineid''"] get_truthy_non_empty [of d "''status''"]
    show ?thesis by blast
  qed
  with r show ?thesis by blast
qed

theorem machines_by_status_non_empty_fields_witness:
  "fst (get_machines_by_status status_env None empty_state)
     = Inr [Dict [(''machineid'', PStr ''M1''), (''status'', PStr ''Fault'')],
            Dict [(''machineid'', PStr ''M5''), (''status'', PStr ''Idle'')]]
   \<and> (\<exists>d i s. Dict [(''machineid'', PStr ''M5''), (''status'', PStr ''Idle'')] = Dict d
           \<and> map_of d ''machineid'' = Some i \<and> i \<noteq> PNone \<and> i \<noteq> PStr []
           \<and> map_of d ''status'' = Some s \<and> s \<noteq> PNone \<and> s \<noteq> PStr [])"
proof -
  obtain ms where r: "fst (get_machines_by_status status_env None empty_state) = Inr ms"
    and v: "\<forall>m \<in> set ms. \<exists>d i s. m = Dict d
           \<and> map_of d ''machineid'' = Some i \<and> i \<noteq> PNone \<and> i \<noteq> PStr []
           \<and> map_of d ''status'' = Some s \<and> s \<noteq> PNone \<and> s \<noteq> PStr []"
    using machines_by_status_non_empty_fields [of status_env None empty_state] by blast
  from r status_rows_all
  have ms: "ms = [Dict [(''machineid'', PStr ''M1''), (''status'', PStr ''Fault'')],
                  Dict [(''machineid'', PStr ''M5''), (''status'', PStr ''Idle'')]]"
    by simp
  then have "Dict [(''machineid'', PStr ''M5''), (''status'', PStr ''Idle'')] \<in> set ms"
    by simp
  with v have "\<exists>d i s. Dict [(''machineid'', PStr ''M5''), (''status'', PStr ''Idle'')] = Dict d
           \<and> map_of d ''machineid'' = Some i \<and> i \<noteq> PNone \<and> i \<noteq> PStr []
           \<and> map_of d ''status'' = Some s \<and> s \<noteq> PNone \<and> s \<noteq> PStr []"
    by (rule bspec)
  with r ms show ?thesis by blast
qed

section \<open>The batch insert\<close>

lemma paginate_Nil: "paginate n [] = []"
  by (simp add: paginate.simps)

lemma paginate_one_page: "xs \<noteq> [] \<Longrightarrow> length xs \<le> n \<Longrightarrow> paginate n xs = [xs]"
  by (subst paginate.simps) (cases xs; auto simp: paginate_Nil)

lemma concat_paginate: "0 < n \<Longrightarrow> concat (paginate n xs) = xs"
proof (induction n xs rule: paginate.induct)
  case (1 n xs)
  show ?case
  proof (cases "xs = []")
    case True
    then show ?thesis by (simp add: paginate_Nil)
  next
    case False
    with 1 show ?thesis by (subst paginate.simps) simp
  qed
qed

lemma pages_adaptable:
  "list_all adaptable ts \<longleftrightarrow> (\<forall>page \<in> set (paginate 1000 ts). list_all adaptable page)"
proof -
  have "list_all adaptable (concat (paginate 1000 ts))
      \<longleftrightarrow> (\<forall>page \<in> set (paginate 1000 ts). list_all adaptable page)"
    by (auto simp: list_all_iff)
  then show ?thesis by (simp add: concat_paginate)
qed

lemma execute_pages_frame:
  "execute_pages ev pages st = (r, st') \<Longrightarrow>
     telemetry st' = telemetry st \<and> commits st' = commits st \<and> rollbacks st' = rollbacks st
     \<and> disk st' = disk st \<and> writes st' = writes st \<and> logged st' = logged st
     \<and> db_instance st' = db_instance st"
  by (induction pages arbitrary: st) (auto split: option.splits if_splits)

lemma execute_pages_ok:
  "\<forall>page \<in> set pages. list_all adaptable page \<and> page_exn ev page = None \<Longrightarrow>
     execute_pages ev pages st = (Inr (), st\<lparr>pending := pending st @ concat pages\<rparr>)"
  by (induction pages arbitrary: st) auto

lemma execute_pages_Inr:
  "execute_pages ev pages st = (Inr u, st') \<Longrightarrow>
     (\<forall>page \<in> set pages. list_all adaptable page \<and> page_exn ev page = None)
     \<and> pending st' = pending st @ concat pages"
  by (induction pages arbitrary: st) (auto split: option.splits if_splits)

lemma execute_pages_Inl:
  "execute_pages ev pages st = (Inl e, st') \<Longrightarrow>
     (\<exists>page \<in> set pages. page_exn ev page = Some e)
     \<or> (e = ProgrammingError \<and> (\<exists>page \<in> set pages. \<not> list_all adaptable page))"
  by (induction pages arbitrary: st) (auto split: option.splits if_splits)

lemma execute_pages_unadaptable:
  "\<exists>page \<in> set pages. \<not> list_all adaptable page \<Longrightarrow> \<exists>e. fst (execute_pages ev pages st) = Inl e"
  by (induction pages arbitrary: st) (auto split: option.splits)

lemma length_build_rows: "length (build_rows df) = length (rows df)"
  by (simp add: build_rows_def)

lemma length_rows_clean:
  "length (rows (clean_dataframe (convert_column_names df))) = length (rows df)"
  by (simp add: clean_dataframe_def convert_column_names_def)

text \<open>The end of the \<^verbatim>\<open>except\<close> clauses: what is raised, and what is left.\<close>

lemma rollback_and_raise_cases:
  assumes "rollback_and_raise ev e st = (r, st')"
  shows "telemetry st' = telemetry st \<and> commits st' = commits st
     \<and> (rollback_exn ev = None \<longrightarrow>
           r = Inl e \<and> pending st' = [] \<and> rollbacks st' = Suc (rollbacks st))
     \<and> (\<forall>e'. rollback_exn ev = Some e' \<longrightarrow> r = Inl e' \<and> st' = st)"
  using assms by (auto simp: rollback_and_raise_def rollback_def split: option.splits)

lemma rollback_and_raise_Inl: "\<exists>e'. fst (rollback_and_raise ev e st) = Inl e'"
  by (simp add: rollback_and_raise_def rollback_def split: option.splits)

text \<open>What \<^verbatim>\<open>_insert_rows\<close> does, by cases on what the driver raises.\<close>

lemma insert_rows_ok:
  assumes "cursor_exn ev = None" and "commit_exn ev = None"
    and "list_all adaptable (build_rows df)"
    and "\<forall>page \<in> set (paginate 1000 (build_rows df)). page_exn ev page = None"
  shows "insert_rows ev df st =
     (Inr (length (rows df)),
      logger INFO ''Batch insert complete''
        (commit (st\<lparr>pending := pending st @ build_rows df\<rparr>)))"
proof -
  from assms(3,4)
  have "\<forall>page \<in> set (paginate 1000 (build_rows df)).
          list_all adaptable page \<and> page_exn ev page = None"
    using pages_adaptable [of "build_rows df"] by blast
  then have "execute_values ev (build_rows df) 1000 st
      = (Inr (), st\<lparr>pending := pending st @ build_rows df\<rparr>)"
    by (simp add: execute_values_def execute_pages_ok concat_paginate)
  with assms(1,2) show ?thesis
    by (simp add: insert_rows_def length_build_rows Let_def)
qed

lemma insert_rows_Inr:
  assumes "insert_rows ev df st = (Inr n, st')"
  shows "n = length (rows df) \<and> telemetry st' = telemetry st @ pending st @ build_rows df
     \<and> pending st' = [] \<and> commits st' = Suc (commits st) \<and> rollbacks st' = rollbacks st
     \<and> cursor_exn ev = None \<and> commit_exn ev = None \<and> list_all adaptable (build_rows df)
     \<and> (\<forall>page \<in> set (paginate 1000 (build_rows df)). page_exn ev page = None)"
proof -
  have no: "fst (rollback_and_raise ev e s) \<noteq> (Inr n :: exn + nat)" for e s
    using rollback_and_raise_Inl [where ?'a = nat, of ev e s] by auto
  from assms have c: "cursor_exn ev = None"
    using no by (cases "cursor_exn ev") (auto simp: insert_rows_def Let_def dest: arg_cong [where f = fst])
  obtain r st1 where x: "execute_values ev (build_rows df) 1000 st = (r, st1)"
    by (cases "execute_values ev (build_rows df) 1000 st")
  from assms c x have r: "r = Inr ()"
    using no by (cases r) (auto simp: insert_rows_def Let_def dest: arg_cong [where f = fst])
  from assms c x r have m: "commit_exn ev = None"
    using no by (cases "commit_exn ev") (auto simp: insert_rows_def Let_def dest: arg_cong [where f = fst])
  from x r have p: "\<forall>page \<in> set (paginate 1000 (build_rows df)).
      list_all adaptable page \<and> page_exn ev page = None"
    unfolding execute_values_def by (auto dest: execute_pages_Inr)
  then have a: "list_all adaptable (build_rows df)"
    using pages_adaptable [of "build_rows df"] by blast
  from p have q: "\<forall>page \<in> set (paginate 1000 (build_rows df)). page_exn ev page = None"
    by blast
  from insert_rows_ok [OF c m a q, of st] assms
  show ?thesis using c m a q
    by (auto simp: logger_def commit_def)
qed

lemma insert_rows_Inl:
  assumes "insert_rows ev df st = (Inl e, st')"
  shows "telemetry st' = telemetry st \<and> commits st' = commits st
     \<and> (rollback_exn ev = None \<longrightarrow>
          pending st' = [] \<and> rollbacks st' = Suc (rollbacks st)
          \<and> (cursor_exn ev = Some e \<or> commit_exn ev = Some e
              \<or> (\<exists>page \<in> set (paginate 1000 (build_rows df)). page_exn ev page = Some e)
              \<or> (e = ProgrammingError \<and> \<not> list_all adaptable (build_rows df))))
     \<and> (\<forall>e'. rollback_exn ev = Some e' \<longrightarrow> e = e' \<and> rollbacks st' = rollbacks st)"
proof -
  let ?log = "logger ERROR ''Batch insert failed''"
  have fields: "telemetry (?log s) = telemetry s \<and> commits (?log s) = commits s
      \<and> rollbacks (?log s) = rollbacks s" for s
    by (simp add: logger_def)
  show ?thesis
  proof (cases "cursor_exn ev")
    case (Some e0)
    with assms have "rollback_and_raise ev e0 (?log st) = (Inl e :: exn + nat, st')"
      by (simp add: insert_rows_def Let_def)
    from rollback_and_raise_cases [OF this] Some fields [of st] show ?thesis by auto
  next
    case None
    obtain r st1 where x: "execute_values ev (build_rows df) 1000 st = (r, st1)"
      by (cases "execute_values ev (build_rows df) 1000 st")
    then have f: "telemetry st1 = telemetry st \<and> commits st1 = commits st
        \<and> rollbacks st1 = rollbacks st"
      unfolding execute_values_def by (auto dest: execute_pages_frame)
    show ?thesis
    proof (cases r)
      case (Inl e0)
      with x have o: "(\<exists>page \<in> set (paginate 1000 (build_rows df)). page_exn ev page = Some e0)
          \<or> (e0 = ProgrammingError \<and> \<not> list_all adaptable (build_rows df))"
        unfolding execute_values_def
        using pages_adaptable [of "build_rows df"] by (auto dest!: execute_pages_Inl)
      from assms None x Inl have "rollback_and_raise ev e0 (?log st1) = (Inl e :: exn + nat, st')"
        by (simp add: insert_rows_def Let_def)
      from rollback_and_raise_cases [OF this] o f fields [of st1] show ?thesis by auto
    next
      case (Inr u)
      show ?thesis
      proof (cases "commit_exn ev")
        case (Some e0)
        with assms None x Inr have "rollback_and_raise ev e0 (?log st1) = (Inl e :: exn + nat, st')"
          by (simp add: insert_rows_def Let_def)
        from rollback_and_raise_cases [OF this] Some f fields [of st1] show ?thesis by auto
      next
        case None2: None
        with assms None x Inr show ?thesis by (simp add: insert_rows_def Let_def)
      qed
    qed
  qed
qed

lemma insert_rows_unadaptable:
  assumes "\<not> list_all adaptable (build_rows df)"
  shows "\<exists>e. fst (insert_rows ev df st) = Inl e"
proof (cases "cursor_exn ev")
  case (Some e0)
  then show ?thesis
    using rollback_and_raise_Inl [where ?'a = nat] by (simp add: insert_rows_def Let_def)
next
  case None
  from assms have "\<exists>page \<in> set (paginate 1000 (build_rows df)). \<not> list_all adaptable page"
    using pages_adaptable [of "build_rows df"] by blast
  then obtain e0 where "fst (execute_pages ev (paginate 1000 (build_rows df)) st) = Inl e0"
    using execute_pages_unadaptable by blast
  then obtain st1 where "execute_values ev (build_rows df) 1000 st = (Inl e0, st1)"
    by (cases "execute_pages ev (paginate 1000 (build_rows df)) st")
       (simp add: execute_values_def)
  with None show ?thesis
    using rollback_and_raise_Inl [where ?'a = nat] by (simp add: insert_rows_def Let_def)
qed

lemma read_csv_logger: "read_csv (logger lvl txt st) p = read_csv st p"
  by (simp add: read_csv_def logger_def)

lemma ingest_csv_readable:
  assumes "disk st file_path = Some (Csv df)"
  shows "ingest_csv ev file_path st =
     (case insert_rows ev (clean_dataframe (convert_column_names df))
             (logger INFO ''Loaded rows from CSV'' (logger INFO ''Reading CSV file'' st)) of
        (Inl e, st1) \<Rightarrow> (Inl e, logger ERROR ''Ingestion failed'' st1)
      | (Inr count, st1) \<Rightarrow> (Inr count, logger INFO ''Successfully ingested rows'' st1))"
  using assms by (simp add: ingest_csv_def Let_def read_csv_logger) (simp add: read_csv_def)

lemma logger_fields:
  "telemetry (logger lvl txt st) = telemetry st" "pending (logger lvl txt st) = pending st"
  "commits (logger lvl txt st) = commits st" "rollbacks (logger lvl txt st) = rollbacks st"
  "disk (logger lvl txt st) = disk st" "db_instance (logger lvl txt st) = db_instance st"
  by (simp_all add: logger_def)

text \<open>The normalized names are lowercase already: the second lowering changes nothing.\<close>

lemma column_value_no_upper:
  "map_of column_mapping s = Some v \<Longrightarrow> set v \<inter> set ascii_uppercase = {}"
  by (auto simp: column_mapping_def ascii_uppercase_def split: if_splits)

lemma converted_name_lower:
  "lower (dict_get column_mapping col (lower col)) = dict_get column_mapping col (lower col)"
  by (cases "map_of column_mapping col")
     (simp_all add: dict_get_def lower_lower lower_fix column_value_no_upper)

lemma columns_cleaned:
  "columns (clean_dataframe (convert_column_names df)) = columns (convert_column_names df)"
  by (simp add: clean_dataframe_def convert_column_names_def converted_name_lower)

text \<open>How often a name is among the labels of a row decides what \<^verbatim>\<open>row.get\<close> gives.\<close>

lemma filter_zip_le:
  "length (filter (\<lambda>(k, v). k = c) (zip cs r)) \<le> count_list cs c"
proof (induction cs arbitrary: r)
  case Nil
  then show ?case by simp
next
  case (Cons a cs)
  show ?case
  proof (cases r)
    case Nil
    then show ?thesis by simp
  next
    case (Cons x xs)
    with Cons.IH [of xs] show ?thesis by auto
  qed
qed

lemma filter_zip_count:
  "length r = length cs \<Longrightarrow> length (filter (\<lambda>(k, v). k = c) (zip cs r)) = count_list cs c"
proof (induction cs arbitrary: r)
  case Nil
  then show ?case by simp
next
  case (Cons a cs)
  then obtain x xs where "r = x # xs" and "length xs = length cs"
    by (cases r) auto
  with Cons.IH [of xs] show ?case by auto
qed

lemma row_get_series:
  "row_get cols row c = PySeries \<longleftrightarrow> 2 \<le> length (filter (\<lambda>(k, v). k = c) (zip cols row))"
  by (auto simp: row_get_def split: list.splits)

lemma row_get_none:
  "row_get cols row c = PyNone \<longleftrightarrow> filter (\<lambda>(k, v). k = c) (zip cols row) = []"
  by (auto simp: row_get_def split: list.splits)

lemma build_rows_adaptable:
  assumes "\<forall>c \<in> set required_columns. count_list (columns df) c \<le> 1"
  shows "list_all adaptable (build_rows df)"
proof -
  have "row_get (columns df) row c \<noteq> PySeries" if "c \<in> set required_columns" for row c
  proof
    assume "row_get (columns df) row c = PySeries"
    then have "2 \<le> count_list (columns df) c"
      using filter_zip_le [of c "columns df" row] by (simp add: row_get_series)
    with assms that show False by fastforce
  qed
  then show ?thesis
    by (auto simp: build_rows_def list_all_iff adaptable_def dest: sym)
qed

lemma build_rows_unadaptable:
  assumes "c \<in> set required_columns" and "1 < count_list (columns df) c"
    and "row \<in> set (rows df)" and "length row = length (columns df)"
  shows "\<not> list_all adaptable (build_rows df)"
proof -
  from assms(2,4) have "row_get (columns df) row c = PySeries"
    by (simp add: row_get_series filter_zip_count)
  with assms(1) have "PySeries \<in> set (map (row_get (columns df) row) required_columns)"
    by force
  with assms(3) show ?thesis
    by (auto simp: build_rows_def list_all_iff adaptable_def)
qed

lemma cleaned_row_length:
  assumes "row \<in> set (rows df)" and "length row = length (columns df)"
  shows "\<exists>row' \<in> set (rows (clean_dataframe (convert_column_names df))).
           length row' = length (columns (clean_dataframe (convert_column_names df)))"
  using assms by (force simp: clean_dataframe_def convert_column_names_def)

text \<open>The small file and the file of two like-named columns, cleaned and ingested.\<close>

lemma small_frame_cleaned:
  "clean_dataframe (convert_column_names small_frame) =
     \<lparr>columns = [''machineid'', ''humidity'', ''status''],
      rows = [[Str ''M1'', Num 40, Str ''Active''], [NaN, Num 65, Str ''Unknown'']]\<rparr>"
  by (simp add: clean_dataframe_def convert_column_names_def small_frame_def dict_get_def
        column_mapping_def fillna_def fill_values_def lower_def lower_char_def
        ascii_uppercase_def ascii_lowercase_def)

lemma small_frame_tuples:
  "build_rows (clean_dataframe (convert_column_names small_frame)) = small_tuples"
  by (simp add: small_frame_cleaned build_rows_def required_columns_def row_get_def
        small_tuples_def)

lemma small_tuples_adaptable: "list_all adaptable small_tuples"
  by (simp add: small_tuples_def adaptable_def)

lemma small_frame_pages:
  "paginate 1000 (build_rows (clean_dataframe (convert_column_names small_frame)))
     = [small_tuples]"
  unfolding small_frame_tuples by (rule paginate_one_page) (simp_all add: small_tuples_def)

lemma small_frame_ingested:
  "ingest_csv quiet_env ''data.csv'' csv_state =
     (Inr 2, csv_state\<lparr>telemetry := small_tuples, commits := 1,
        logged := [(INFO, Text ''Reading CSV file''), (INFO, Text ''Loaded rows from CSV''),
                   (INFO, Text ''Batch insert complete''),
                   (INFO, Text ''Successfully ingested rows'')]\<rparr>)"
  by (simp add: ingest_csv_def read_csv_def insert_rows_def execute_values_def
        small_frame_pages [unfolded small_frame_tuples] small_frame_tuples Let_def
        small_tuples_adaptable csv_state_def empty_state_def quiet_env_def logger_def commit_def)
     (simp add: small_tuples_def)

lemma small_insert_rejected:
  "fst (insert_rows rejecting_env (clean_dataframe (convert_column_names small_frame)) st)
     = Inl DatabaseError"
  by (simp add: insert_rows_def execute_values_def
        small_frame_pages [unfolded small_frame_tuples] small_frame_tuples Let_def
        small_tuples_adaptable rejecting_env_def quiet_env_def rollback_and_raise_def
        rollback_def)

lemma small_insert_dropped:
  "fst (insert_rows dropped_env (clean_dataframe (convert_column_names small_frame)) st)
     = Inl InterfaceError"
  by (simp add: insert_rows_def execute_values_def
        small_frame_pages [unfolded small_frame_tuples] small_frame_tuples Let_def
        small_tuples_adaptable dropped_env_def quiet_env_def rollback_and_raise_def
        rollback_def)

lemma twin_frame_tuples:
  "build_rows (clean_dataframe (convert_column_names twin_frame))
     = [[PyNone, PyNone, PyNone, PyNone, PyNone, PyNone, PyNone, PySeries, PyNone, PyNone,
         PyNone, PyNone, PyNone, PyNone, PyNone, PyNone, PyNone]]"
  by (simp add: clean_dataframe_def convert_column_names_def twin_frame_def dict_get_def
        column_mapping_def fillna_def fill_values_def lower_def lower_char_def
        ascii_uppercase_def ascii_lowercase_def build_rows_def required_columns_def
        row_get_def)

text \<open>
  C3, as amended. For a readable source file, cleaning keeps the number of rows and one
  tuple is built per row; whenever \<^verbatim>\<open>ingest_csv\<close> returns, it returns the number of rows
  read and the table has grown by exactly the tuples built. It does return, with that
  count, whenever no canonical column name occurs twice among the normalized column names
  and the driver raises nothing (cursor, every page of the INSERT, commit). It raises, and
  returns no count, when a canonical name occurs twice and the file has a row.
\<close>

theorem ingest_csv_row_count:
  assumes "disk st file_path = Some (Csv df)"
  shows "length (rows (clean_dataframe (convert_column_names df))) = length (rows df)
   \<and> length (build_rows (clean_dataframe (convert_column_names df))) = length (rows df)
   \<and> (\<forall>n. fst (ingest_csv ev file_path st) = Inr n \<longrightarrow>
         n = length (rows df)
         \<and> telemetry (snd (ingest_csv ev file_path st))
             = telemetry st @ pending st @ build_rows (clean_dataframe (convert_column_names df)))
   \<and> ((\<forall>c \<in> set required_columns. count_list (columns (convert_column_names df)) c \<le> 1)
        \<and> cursor_exn ev = None \<and> commit_exn ev = None
        \<and> (\<forall>page \<in> set (paginate 1000 (build_rows (clean_dataframe (convert_column_names df)))).
              page_exn ev page = None)
       \<longrightarrow> fst (ingest_csv ev file_path st) = Inr (length (rows df)))
   \<and> ((\<exists>c \<in> set required_columns. 1 < count_list (columns (convert_column_names df)) c)
        \<and> (\<exists>row \<in> set (rows df). length row = length (columns df))
       \<longrightarrow> (\<exists>e. fst (ingest_csv ev file_path st) = Inl e))"
proof (intro conjI allI impI)
  let ?df = "clean_dataframe (convert_column_names df)"
  let ?st = "logger INFO ''Loaded rows from CSV'' (logger INFO ''Reading CSV file'' st)"
  show "length (rows ?df) = length (rows df)" by (rule length_rows_clean)
  show "length (build_rows ?df) = length (rows df)"
    by (simp add: length_build_rows length_rows_clean)
  {
    fix n assume r: "fst (ingest_csv ev file_path st) = Inr n"
    obtain res st1 where i: "insert_rows ev ?df ?st = (res, st1)"
      by (cases "insert_rows ev ?df ?st")
    with r assms have res: "res = Inr n"
      by (cases res) (simp_all add: ingest_csv_readable)
    from insert_rows_Inr [OF i [unfolded res]]
    have "n = length (rows ?df)" and "telemetry st1 = telemetry ?st @ pending ?st @ build_rows ?df"
      by simp_all
    with i res assms show "n = length (rows df)"
      and "telemetry (snd (ingest_csv ev file_path st)) = telemetry st @ pending st @ build_rows ?df"
      by (simp_all add: ingest_csv_readable logger_fields length_rows_clean)
  }
  {
    assume a: "(\<forall>c \<in> set required_columns. count_list (columns (convert_column_names df)) c \<le> 1)
        \<and> cursor_exn ev = None \<and> commit_exn ev = None
        \<and> (\<forall>page \<in> set (paginate 1000 (build_rows ?df)). page_exn ev page = None)"
    then have "list_all adaptable (build_rows ?df)"
      by (intro build_rows_adaptable) (simp add: columns_cleaned)
    with a have "insert_rows ev ?df ?st =
       (Inr (length (rows ?df)),
        logger INFO ''Batch insert complete'' (commit (?st\<lparr>pending := pending ?st @ build_rows ?df\<rparr>)))"
      by (intro insert_rows_ok) simp_all
    with assms show "fst (ingest_csv ev file_path st) = Inr (length (rows df))"
      by (simp add: ingest_csv_readable length_rows_clean)
  }
  {
    assume b: "(\<exists>c \<in> set required_columns. 1 < count_list (columns (convert_column_names df)) c)
        \<and> (\<exists>row \<in> set (rows df). length row = length (columns df))"
    then obtain c row where c: "c \<in> set required_columns"
      and d: "1 < count_list (columns ?df) c"
      and row: "row \<in> set (rows df)" "length row = length (columns df)"
      by (auto simp: columns_cleaned)
    from cleaned_row_length [OF row] obtain row' where "row' \<in> set (rows ?df)"
      and "length row' = length (columns ?df)" by blast
    with c d have "\<not> list_all adaptable (build_rows ?df)"
      by (intro build_rows_unadaptable)
    then obtain e where e: "fst (insert_rows ev ?df ?st) = Inl e"
      using insert_rows_unadaptable by blast
    then have "fst (ingest_csv ev file_path st) = Inl e"
      using assms by (cases "insert_rows ev ?df ?st") (simp add: ingest_csv_readable)
    then show "\<exists>e. fst (ingest_csv ev file_path st) = Inl e" ..
  }
qed

theorem ingest_csv_row_count_witness:
  "fst (ingest_csv quiet_env ''data.csv'' csv_state) = Inr 2
   \<and> length (build_rows (clean_dataframe (convert_column_names small_frame))) = 2
   \<and> (\<exists>e. fst (ingest_csv quiet_env ''twin.csv'' twin_state) = Inl e)"
proof -
  have d: "disk csv_state ''data.csv'' = Some (Csv small_frame)"
    by (simp add: csv_state_def empty_state_def)
  have cols: "columns (convert_column_names small_frame) = [''machineid'', ''humidity'', ''status'']"
    using small_frame_cleaned columns_cleaned [of small_frame] by simp
  have ok: "(\<forall>c \<in> set required_columns.
               count_list (columns (convert_column_names small_frame)) c \<le> 1)
      \<and> cursor_exn quiet_env = None \<and> commit_exn quiet_env = None
      \<and> (\<forall>page \<in> set (paginate 1000
            (build_rows (clean_dataframe (convert_column_names small_frame)))).
            page_exn quiet_env page = None)"
    by (simp add: quiet_env_def cols required_columns_def)
  have n: "length (rows small_frame) = 2" by (simp add: small_frame_def)
  from ingest_csv_row_count [OF d, of quiet_env] ok
  have "fst (ingest_csv quiet_env ''data.csv'' csv_state) = Inr (length (rows small_frame))"
    and "length (build_rows (clean_dataframe (convert_column_names small_frame)))
      = length (rows small_frame)"
    by blast+
  moreover
  have t: "disk twin_state ''twin.csv'' = Some (Csv twin_frame)"
    by (simp add: twin_state_def empty_state_def)
  have twice: "(\<exists>c \<in> set required_columns.
                  1 < count_list (columns (convert_column_names twin_frame)) c)
      \<and> (\<exists>row \<in> set (rows twin_frame). length row = length (columns twin_frame))"
    by (simp add: twin_frame_def convert_column_names_def dict_get_def column_mapping_def
          required_columns_def lower_def lower_char_def ascii_uppercase_def
          ascii_lowercase_def)
  from ingest_csv_row_count [OF t, of quiet_env] twice
  have "\<exists>e. fst (ingest_csv quiet_env ''twin.csv'' twin_state) = Inl e"
    by blast
  ultimately show ?thesis by (simp add: n)
qed

text \<open>
  C3 as stated fails: the file with the columns \<^verbatim>\<open>Humidity\<close> and \<^verbatim>\<open>humidity\<close> is
  readable and has one row, the server raises nothing, and \<^verbatim>\<open>ingest_csv\<close> raises the
  \<^verbatim>\<open>ProgrammingError\<close> of the driver, which cannot adapt the Series that
  \<^verbatim>\<open>row.get('humidity', None)\<close> gives.
\<close>

theorem ingest_csv_twin_counterexample:
  "read_csv twin_state ''twin.csv'' = Inr twin_frame
   \<and> fst (ingest_csv quiet_env ''twin.csv'' twin_state) = Inl ProgrammingError"
  by (simp add: ingest_csv_def read_csv_def insert_rows_def execute_values_def
        twin_frame_tuples paginate_one_page adaptable_def Let_def logger_def
        twin_state_def empty_state_def quiet_env_def rollback_and_raise_def rollback_def)

text \<open>
  C4, as amended. \<^verbatim>\<open>_insert_rows\<close> is all-or-nothing. When it returns, the tuples of the
  whole batch have been committed, by one commit and no rollback. When it raises, nothing
  has been committed: the committed table is as before and there was no commit. If
  \<^verbatim>\<open>conn.rollback()\<close> succeeds, there was one rollback, nothing is left pending, and the
  exception raised is the one of the insert (of the cursor, of a page of the INSERT, of the
  commit, or the driver's \<^verbatim>\<open>ProgrammingError\<close> on a tuple it cannot adapt). If
  \<^verbatim>\<open>conn.rollback()\<close> raises, its exception is raised in place of the insert's.
  \<^verbatim>\<open>ingest_csv\<close> on a readable file ends as \<^verbatim>\<open>_insert_rows\<close> on the cleaned frame does:
  the same count or the same exception, and the same table.
\<close>

theorem batch_insert_all_or_nothing:
  "(case insert_rows ev df st of
      (Inr n, st') \<Rightarrow>
        telemetry st' = telemetry st @ pending st @ build_rows df \<and> pending st' = []
        \<and> commits st' = Suc (commits st) \<and> rollbacks st' = rollbacks st
    | (Inl e, st') \<Rightarrow>
        telemetry st' = telemetry st \<and> commits st' = commits st
        \<and> (rollback_exn ev = None \<longrightarrow>
             pending st' = [] \<and> rollbacks st' = Suc (rollbacks st)
             \<and> (cursor_exn ev = Some e \<or> commit_exn ev = Some e
                 \<or> (\<exists>page \<in> set (paginate 1000 (build_rows df)). page_exn ev page = Some e)
                 \<or> (e = ProgrammingError \<and> \<not> list_all adaptable (build_rows df))))
        \<and> (\<forall>e'. rollback_exn ev = Some e' \<longrightarrow> e = e' \<and> rollbacks st' = rollbacks st))
   \<and> (\<forall>src. disk st0 file_path = Some (Csv src) \<longrightarrow>
        df = clean_dataframe (convert_column_names src) \<longrightarrow>
        st = logger INFO ''Loaded rows from CSV'' (logger INFO ''Reading CSV file'' st0) \<longrightarrow>
          fst (ingest_csv ev file_path st0) = fst (insert_rows ev df st)
          \<and> telemetry (snd (ingest_csv ev file_path st0)) = telemetry (snd (insert_rows ev df st))
          \<and> commits (snd (ingest_csv ev file_path st0)) = commits (snd (insert_rows ev df st))
          \<and> rollbacks (snd (ingest_csv ev file_path st0)) = rollbacks (snd (insert_rows ev df st)))"
proof (intro conjI allI impI)
  obtain r st' where i: "insert_rows ev df st = (r, st')" by (cases "insert_rows ev df st")
  show "case insert_rows ev df st of
      (Inr n, st') \<Rightarrow>
        telemetry st' = telemetry st @ pending st @ build_rows df \<and> pending st' = []
        \<and> commits st' = Suc (commits st) \<and> rollbacks st' = rollbacks st
    | (Inl e, st') \<Rightarrow>
        telemetry st' = telemetry st \<and> commits st' = commits st
        \<and> (rollback_exn ev = None \<longrightarrow>
             pending st' = [] \<and> rollbacks st' = Suc (rollbacks st)
             \<and> (cursor_exn ev = Some e \<or> commit_exn ev = Some e
                 \<or> (\<exists>page \<in> set (paginate 1000 (build_rows df)). page_exn ev page = Some e)
                 \<or> (e = ProgrammingError \<and> \<not> list_all adaptable (build_rows df))))
        \<and> (\<forall>e'. rollback_exn ev = Some e' \<longrightarrow> e = e' \<and> rollbacks st' = rollbacks st)"
  proof (cases r)
    case (Inl e)
    with i insert_rows_Inl [of ev df st e st'] show ?thesis by auto
  next
    case (Inr n)
    with i insert_rows_Inr [of ev df st n st'] show ?thesis by simp
  qed
next
  fix src
  assume a: "disk st0 file_path = Some (Csv src)"
    and b: "df = clean_dataframe (convert_column_names src)"
    and c: "st = logger INFO ''Loaded rows from CSV'' (logger INFO ''Reading CSV file'' st0)"
  obtain r st' where i: "insert_rows ev df st = (r, st')" by (cases "insert_rows ev df st")
  with a b c show "fst (ingest_csv ev file_path st0) = fst (insert_rows ev df st)"
    and "telemetry (snd (ingest_csv ev file_path st0)) = telemetry (snd (insert_rows ev df st))"
    and "commits (snd (ingest_csv ev file_path st0)) = commits (snd (insert_rows ev df st))"
    and "rollbacks (snd (ingest_csv ev file_path st0)) = rollbacks (snd (insert_rows ev df st))"
    by (cases r; simp add: ingest_csv_readable logger_fields)+
qed

theorem batch_insert_all_or_nothing_witness:
  "fst (ingest_csv rejecting_env ''data.csv'' csv_state) = Inl DatabaseError
   \<and> telemetry (snd (ingest_csv rejecting_env ''data.csv'' csv_state)) = []
   \<and> commits (snd (ingest_csv rejecting_env ''data.csv'' csv_state)) = 0
   \<and> rollbacks (snd (ingest_csv rejecting_env ''data.csv'' csv_state)) = 1"
proof -
  let ?df = "clean_dataframe (convert_column_names small_frame)"
  let ?st = "logger INFO ''Loaded rows from CSV'' (logger INFO ''Reading CSV file'' csv_state)"
  have d: "disk csv_state ''data.csv'' = Some (Csv small_frame)"
    by (simp add: csv_state_def empty_state_def)
  have s: "telemetry ?st = [] \<and> commits ?st = 0 \<and> rollbacks ?st = 0"
    by (simp add: logger_fields csv_state_def empty_state_def)
  have b: "rollback_exn rejecting_env = None"
    by (simp add: rejecting_env_def quiet_env_def)
  obtain r st' where i: "insert_rows rejecting_env ?df ?st = (r, st')"
    by (cases "insert_rows rejecting_env ?df ?st")
  with small_insert_rejected [of ?st] have r: "r = Inl DatabaseError" by simp
  note t = batch_insert_all_or_nothing [where ev = rejecting_env and df = ?df and st = ?st
      and ?st0.0 = csv_state and file_path = "''data.csv''"]
  from t i r s b have "telemetry st' = [] \<and> commits st' = 0 \<and> rollbacks st' = 1" by simp
  moreover from t d
  have "fst (ingest_csv rejecting_env ''data.csv'' csv_state) = fst (insert_rows rejecting_env ?df ?st)
    \<and> telemetry (snd (ingest_csv rejecting_env ''data.csv'' csv_state))
        = telemetry (snd (insert_rows rejecting_env ?df ?st))
    \<and> commits (snd (ingest_csv rejecting_env ''data.csv'' csv_state))
        = commits (snd (insert_rows rejecting_env ?df ?st))
    \<and> rollbacks (snd (ingest_csv rejecting_env ''data.csv'' csv_state))
        = rollbacks (snd (insert_rows rejecting_env ?df ?st))"
    by blast
  ultimately show ?thesis using i r by simp
qed

text \<open>
  C4 as stated fails: the server closes the connection while the INSERT of the small file
  runs. The insert raises \<^verbatim>\<open>OperationalError\<close>; \<^verbatim>\<open>conn.rollback()\<close> raises
  \<^verbatim>\<open>InterfaceError\<close>; \<^verbatim>\<open>ingest_csv\<close> raises that one, not the insert's, and no
  rollback has been made.
\<close>

theorem rollback_raises_counterexample:
  "page_exn dropped_env small_tuples = Some OperationalError
   \<and> fst (ingest_csv dropped_env ''data.csv'' csv_state) = Inl InterfaceError
   \<and> rollbacks (snd (ingest_csv dropped_env ''data.csv'' csv_state)) = 0"
  by (simp add: ingest_csv_def read_csv_def insert_rows_def execute_values_def
        small_frame_pages [unfolded small_frame_tuples] small_frame_tuples Let_def
        small_tuples_adaptable csv_state_def empty_state_def dropped_env_def quiet_env_def
        logger_def rollback_and_raise_def rollback_def)

section \<open>Default values at ingestion\<close>

lemma filter_zip_filled:
  "filter (\<lambda>(k, v). k = c) (zip cs (map (\<lambda>(k, v). f k v) (zip cs r)))
     = map (\<lambda>(k, v). (k, f k v)) (filter (\<lambda>(k, v). k = c) (zip cs r))"
proof (induction cs arbitrary: r)
  case Nil
  then show ?case by simp
next
  case (Cons a cs)
  then show ?case by (cases r) simp_all
qed

lemma row_get_filled:
  "row_get cols (map (\<lambda>(k, v). fillna fill_values k v) (zip cols row)) c
     = (case row_get cols row c of
          PyNone \<Rightarrow> PyNone
        | PyScalar v \<Rightarrow> PyScalar (fillna fill_values c v)
        | PySeries \<Rightarrow> PySeries)"
proof -
  let ?fl = "filter (\<lambda>(k, v). k = c) (zip cols row)"
  have key: "k = c" if "(k, v) \<in> set ?fl" for k v
    using that by simp
  show ?thesis
  proof (cases ?fl)
    case Nil
    then show ?thesis by (simp add: row_get_def filter_zip_filled)
  next
    case (Cons x xs)
    obtain k v where x: "x = (k, v)" by (cases x)
    with Cons key [of k v] have k: "k = c" by simp
    show ?thesis
    proof (cases xs)
      case Nil
      with Cons x k show ?thesis by (simp add: row_get_def filter_zip_filled)
    next
      case (Cons y ys)
      with \<open>?fl = x # xs\<close> x show ?thesis by (simp add: row_get_def filter_zip_filled)
    qed
  qed
qed

lemma row_get_absent: "c \<notin> set cols \<Longrightarrow> row_get cols row c = PyNone"
proof -
  assume "c \<notin> set cols"
  then have "filter (\<lambda>(k, v). k = c) (zip cols row) = []"
    by (auto simp: filter_empty_conv dest: set_zip_leftD)
  then show ?thesis by (simp add: row_get_none)
qed

lemma row_get_once:
  assumes "count_list cols c = 1" and "length row = length cols"
  shows "\<exists>v. row_get cols row c = PyScalar v"
proof -
  from assms have "length (filter (\<lambda>(k, v). k = c) (zip cols row)) = 1"
    by (simp add: filter_zip_count)
  then obtain x where "filter (\<lambda>(k, v). k = c) (zip cols row) = [x]"
    by (auto simp: length_Suc_conv)
  then show ?thesis by (cases x) (simp add: row_get_def)
qed

lemma inserted_value_built:
  "c \<in> set required_columns \<Longrightarrow> inserted_value (map g required_columns) c = g c"
  by (simp add: inserted_value_def dict_get_def map_of_zip_map)

lemma built_row_nth:
  assumes "i < length (rows df)"
  shows "build_rows (clean_dataframe (convert_column_names df)) ! i
         = map (row_get (columns (convert_column_names df))
                  (map (\<lambda>(k, v). fillna fill_values k v)
                     (zip (columns (convert_column_names df)) (rows df ! i))))
             required_columns"
proof -
  have r: "rows (clean_dataframe (convert_column_names df)) ! i
      = map (\<lambda>(k, v). fillna fill_values k v)
          (zip (columns (convert_column_names df)) (rows df ! i))"
    using assms by (simp add: clean_dataframe_def convert_column_names_def)
  have "build_rows (clean_dataframe (convert_column_names df)) ! i
      = map (row_get (columns (clean_dataframe (convert_column_names df)))
               (rows (clean_dataframe (convert_column_names df)) ! i)) required_columns"
    using assms by (simp add: build_rows_def length_rows_clean)
  then show ?thesis by (simp only: r columns_cleaned)
qed

lemma fillna_default:
  assumes "map_of fill_values c = Some d"
  shows "fillna fill_values c v = (if v = NaN then d else v)" and "d \<noteq> NaN"
proof -
  show "fillna fill_values c v = (if v = NaN then d else v)"
    using assms by (cases v) (simp_all add: fillna_def dict_get_def)
  show "d \<noteq> NaN"
    using assms by (auto simp: fill_values_def split: if_splits)
qed

lemma fillna_no_default:
  "map_of fill_values c = None \<Longrightarrow> fillna fill_values c v = v"
  by (cases v) (simp_all add: fillna_def dict_get_def)

text \<open>
  C1, as amended. Take a row \<open>i\<close> of a source file and a canonical column \<open>c\<close>; \<open>cols\<close> are
  the column names after the renaming. The value that the INSERT gets for \<open>c\<close> follows what
  \<^verbatim>\<open>row.get\<close> finds for \<open>c\<close> in the source row: None stays None, a cell is filled by
  \<^verbatim>\<open>fillna\<close>, a Series stays a Series. So: when the file has no column \<open>c\<close>, the value is
  None (SQL NULL), whether \<open>c\<close> has a default or not. When \<open>c\<close> is one of the eight columns
  with a default and the file has it once, the value is populated: the source value, or
  the default when the source value is missing; it is never NaN. When \<open>c\<close> is one of the
  nine columns without a default and the file has it once, the value is the source cell
  unchanged, NaN when the source value is missing.
\<close>

theorem stored_cells_filled:
  assumes "i < length (rows df)" and "c \<in> set required_columns"
  shows "inserted_value (build_rows (clean_dataframe (convert_column_names df)) ! i) c
         = (case row_get (columns (convert_column_names df)) (rows df ! i) c of
              PyNone \<Rightarrow> PyNone
            | PyScalar v \<Rightarrow> PyScalar (fillna fill_values c v)
            | PySeries \<Rightarrow> PySeries)
     \<and> (c \<notin> set (columns (convert_column_names df)) \<longrightarrow>
          inserted_value (build_rows (clean_dataframe (convert_column_names df)) ! i) c = PyNone)
     \<and> (\<forall>v d. row_get (columns (convert_column_names df)) (rows df ! i) c = PyScalar v \<longrightarrow>
           map_of fill_values c = Some d \<longrightarrow>
             inserted_value (build_rows (clean_dataframe (convert_column_names df)) ! i) c
               = PyScalar (if v = NaN then d else v)
             \<and> inserted_value (build_rows (clean_dataframe (convert_column_names df)) ! i) c
               \<noteq> PyScalar NaN)
     \<and> (\<forall>v. row_get (columns (convert_column_names df)) (rows df ! i) c = PyScalar v \<longrightarrow>
           map_of fill_values c = None \<longrightarrow>
             inserted_value (build_rows (clean_dataframe (convert_column_names df)) ! i) c
               = PyScalar v)
     \<and> (count_list (columns (convert_column_names df)) c = 1 \<longrightarrow>
          length (rows df ! i) = length (columns df) \<longrightarrow>
          (\<exists>v. row_get (columns (convert_column_names df)) (rows df ! i) c = PyScalar v))"
proof -
  let ?cols = "columns (convert_column_names df)"
  let ?t = "build_rows (clean_dataframe (convert_column_names df)) ! i"
  have main: "inserted_value ?t c
      = (case row_get ?cols (rows df ! i) c of
           PyNone \<Rightarrow> PyNone
         | PyScalar v \<Rightarrow> PyScalar (fillna fill_values c v)
         | PySeries \<Rightarrow> PySeries)"
    by (simp only: built_row_nth [OF assms(1)] inserted_value_built [OF assms(2)]
          row_get_filled)
  have len: "length ?cols = length (columns df)"
    by (simp add: convert_column_names_def)
  show ?thesis
  proof (intro conjI allI impI)
    show "inserted_value ?t c
      = (case row_get ?cols (rows df ! i) c of
           PyNone \<Rightarrow> PyNone
         | PyScalar v \<Rightarrow> PyScalar (fillna fill_values c v)
         | PySeries \<Rightarrow> PySeries)"
      by (rule main)
  next
    assume "c \<notin> set ?cols"
    then show "inserted_value ?t c = PyNone"
      by (simp add: main row_get_absent)
  next
    fix v d
    assume s: "row_get ?cols (rows df ! i) c = PyScalar v" and d: "map_of fill_values c = Some d"
    from s show "inserted_value ?t c = PyScalar (if v = NaN then d else v)"
      by (simp add: main fillna_default(1) [OF d])
    with fillna_default(2) [OF d] show "inserted_value ?t c \<noteq> PyScalar NaN"
      by simp
  next
    fix v
    assume "row_get ?cols (rows df ! i) c = PyScalar v" and "map_of fill_values c = None"
    then show "inserted_value ?t c = PyScalar v"
      by (simp add: main fillna_no_default)
  next
    assume "count_list ?cols c = 1" and "length (rows df ! i) = length (columns df)"
    then show "\<exists>v. row_get ?cols (rows df ! i) c = PyScalar v"
      by (intro row_get_once) (simp_all add: len)
  qed
qed

theorem stored_cells_filled_witness:
  "inserted_value
     (build_rows (clean_dataframe (convert_column_names small_frame)) ! 1) ''humidity''
     = PyScalar (Num 65)
   \<and> inserted_value
     (build_rows (clean_dataframe (convert_column_names small_frame)) ! 1) ''machineid''
     = PyScalar NaN
   \<and> inserted_value
     (build_rows (clean_dataframe (convert_column_names small_frame)) ! 1) ''pressure''
     = PyNone"
proof -
  have cols: "columns (convert_column_names small_frame) = [''machineid'', ''humidity'', ''status'']"
    by (simp add: convert_column_names_def small_frame_def dict_get_def column_mapping_def)
  have i: "1 < length (rows small_frame)"
    and row: "rows small_frame ! 1 = [NaN, NaN, NaN]"
    by (simp_all add: small_frame_def)
  have req: "''humidity'' \<in> set required_columns" "''machineid'' \<in> set required_columns"
    "''pressure'' \<in> set required_columns"
    by (simp_all add: required_columns_def)
  have fv: "map_of fill_values ''humidity'' = Some (Num 65)"
    "map_of fill_values ''machineid'' = None"
    by (simp_all add: fill_values_def)
  have src: "row_get [''machineid'', ''humidity'', ''status''] [NaN, NaN, NaN] ''humidity''
      = PyScalar NaN"
    "row_get [''machineid'', ''humidity'', ''status''] [NaN, NaN, NaN] ''machineid''
      = PyScalar NaN"
    by (simp_all add: row_get_def)
  have absent: "''pressure'' \<notin> set (columns (convert_column_names small_frame))"
    by (simp add: cols)
  from stored_cells_filled [OF i req(1)] fv(1) src(1)
  have "inserted_value
     (build_rows (clean_dataframe (convert_column_names small_frame)) ! 1) ''humidity''
     = PyScalar (if NaN = NaN then Num 65 else NaN)"
    unfolding cols row by blast
  moreover from stored_cells_filled [OF i req(2)] fv(2) src(2)
  have "inserted_value
     (build_rows (clean_dataframe (convert_column_names small_frame)) ! 1) ''machineid''
     = PyScalar NaN"
    unfolding cols row by blast
  moreover from stored_cells_filled [OF i req(3)] absent
  have "inserted_value
     (build_rows (clean_dataframe (convert_column_names small_frame)) ! 1) ''pressure''
     = PyNone"
    by blast
  ultimately show ?thesis by simp
qed

text \<open>
  C1 as stated fails. The small file is ingested, both rows. It has no pressure column:
  the rows are stored with no pressure (NULL), although pressure has the default 950. Its
  second row has no machine id, a column without a default: no default takes its place,
  the INSERT gets NaN.
\<close>

theorem stored_row_null_counterexample:
  "fst (ingest_csv quiet_env ''data.csv'' csv_state) = Inr 2
   \<and> inserted_value (telemetry (snd (ingest_csv quiet_env ''data.csv'' csv_state)) ! 1)
        ''pressure'' = PyNone
   \<and> inserted_value (telemetry (snd (ingest_csv quiet_env ''data.csv'' csv_state)) ! 1)
        ''machineid'' = PyScalar NaN"
  by (simp add: small_frame_ingested small_tuples_def required_columns_def inserted_value_def
        dict_get_def)

section \<open>The database setup step\<close>

lemma get_db_connected: "db_instance st \<or> connect_exn ev = None \<Longrightarrow> fst (get_db ev st) = Inr ()"
  by (auto simp: get_db_def split: option.splits)

lemma setup_never_raises: "fst (setup_complete_database ev csv_file_path st) = Inr ()"
  by (simp add: setup_complete_database_def split: prod.splits sum.splits)

lemma small_frame_setup_fails:
  "fst (setup_body rejecting_env (Some ''data.csv'') csv_state) = Inl DatabaseError"
  by (simp add: setup_body_def init_db_def table_queries_def index_queries_def
        execute_query_def get_db_def path_exists_def
        ingest_csv_def read_csv_def insert_rows_def execute_values_def
        small_frame_pages [unfolded small_frame_tuples] small_frame_tuples Let_def
        small_tuples_adaptable csv_state_def empty_state_def rejecting_env_def quiet_env_def
        logger_def rollback_and_raise_def rollback_def commit_def)

text \<open>
  C8, as amended. \<^verbatim>\<open>setup_complete_database\<close> returns normally on every input: whatever
  its body raises (a failed ingestion included) is caught and logged as one error record.
  The scheduled step \<^verbatim>\<open>task_init_database\<close> first constructs the
  \<^verbatim>\<open>DatabaseInitializer\<close>; it completes normally when the connection exists already or
  can be made, and otherwise logs the connection failure as an error and raises it.
\<close>

theorem setup_complete_database_catches:
  "fst (setup_complete_database ev csv_file_path st) = Inr ()
   \<and> (\<forall>e. fst (setup_body ev csv_file_path st) = Inl e \<longrightarrow>
        logged (snd (setup_complete_database ev csv_file_path st))
          = logged (snd (setup_body ev csv_file_path st)) @ [(ERROR, Text ''Database setup failed'')])
   \<and> (db_instance st \<or> connect_exn ev = None \<longrightarrow> fst (task_init_database ev st) = Inr ())
   \<and> (\<not> db_instance st \<longrightarrow> (\<forall>e. connect_exn ev = Some e \<longrightarrow> fst (task_init_database ev st) = Inl e))
   \<and> (\<not> db_instance st \<longrightarrow> (\<forall>e. connect_exn ev = Some e \<longrightarrow>
        logged (snd (task_init_database ev st))
          = logged st @ [(ERROR, Text ''Database connection failed'')]))"
proof (intro conjI allI impI)
  show "fst (setup_complete_database ev csv_file_path st) = Inr ()"
    by (rule setup_never_raises)
next
  fix e assume "fst (setup_body ev csv_file_path st) = Inl e"
  then show "logged (snd (setup_complete_database ev csv_file_path st))
          = logged (snd (setup_body ev csv_file_path st)) @ [(ERROR, Text ''Database setup failed'')]"
    by (cases "setup_body ev csv_file_path st") (simp add: setup_complete_database_def logger_def)
next
  assume "db_instance st \<or> connect_exn ev = None"
  then have "fst (get_db ev st) = Inr ()" by (rule get_db_connected)
  then show "fst (task_init_database ev st) = Inr ()"
    by (cases "get_db ev st") (simp add: task_init_database_def setup_never_raises)
next
  fix e assume "\<not> db_instance st" "connect_exn ev = Some e"
  then show "fst (task_init_database ev st) = Inl e"
    by (simp add: task_init_database_def get_db_def)
next
  fix e assume "\<not> db_instance st" "connect_exn ev = Some e"
  then show "logged (snd (task_init_database ev st))
      = logged st @ [(ERROR, Text ''Database connection failed'')]"
    by (simp add: task_init_database_def get_db_def logger_def)
qed

theorem setup_complete_database_catches_witness:
  "fst (setup_body rejecting_env (Some ''data.csv'') csv_state) = Inl DatabaseError
   \<and> fst (setup_complete_database rejecting_env (Some ''data.csv'') csv_state) = Inr ()
   \<and> fst (task_init_database quiet_env fresh_state) = Inr ()
   \<and> last (logged (snd (setup_complete_database rejecting_env (Some ''data.csv'') csv_state)))
       = (ERROR, Text ''Database setup failed'')"
proof -
  note t = setup_complete_database_catches [of rejecting_env "Some ''data.csv''" csv_state]
  note u = setup_complete_database_catches [of quiet_env csv_file_path fresh_state]
  have c: "connect_exn quiet_env = None" by (simp add: quiet_env_def)
  from t small_frame_setup_fails
  have "logged (snd (setup_complete_database rejecting_env (Some ''data.csv'') csv_state))
      = logged (snd (setup_body rejecting_env (Some ''data.csv'') csv_state))
          @ [(ERROR, Text ''Database setup failed'')]"
    by blast
  then have "last (logged (snd (setup_complete_database rejecting_env (Some ''data.csv'') csv_state)))
      = (ERROR, Text ''Database setup failed'')"
    by simp
  moreover from t
  have "fst (setup_complete_database rejecting_env (Some ''data.csv'') csv_state) = Inr ()"
    by blast
  moreover from u c have "fst (task_init_database quiet_env fresh_state) = Inr ()"
    by blast
  ultimately show ?thesis using small_frame_setup_fails by simp
qed

text \<open>
  C8 as stated fails for the scheduled step: with no connection yet and the server down,
  \<^verbatim>\<open>task_init_database\<close> raises the \<^verbatim>\<open>OperationalError\<close> of the connection.
\<close>

theorem task_init_database_counterexample:
  "fst (task_init_database down_env fresh_state) = Inl OperationalError"
  by (simp add: task_init_database_def get_db_def down_env_def quiet_env_def fresh_state_def
        empty_state_def)

end
